theory Spec2Isabelle
  imports Complex_Main "HOL-Library.Word" "HOL-Library.Sublist"
begin

section \<open>JavaScript values as the program sees them\<close>

text \<open>
  A JavaScript string is a sequence of 16-bit code units. ASCII literals of the source are
  written \<open>asc ''...''\<close>; the Arabic literals are given by their code units.
\<close>

type_synonym jstring = "16 word list"

definition asc :: "string \<Rightarrow> jstring" where
  "asc s = map (\<lambda>c. of_nat (of_char c)) s"

text \<open>
  A Number value: a finite value other than \<open>-0\<close> (\<open>Fin q\<close>, where \<open>q\<close> is the exact
  value of the double), \<open>-0\<close>, the two infinities and NaN.
\<close>

datatype number = Fin rat | NegZero | PosInf | NegInf | NaN

text \<open>
  The values that reach the code from \<open>JSON.parse\<close>, \<open>response.json()\<close> and
  \<open>req.body\<close>, plus \<open>undefined\<close> (a missing property or argument). An object is the
  list of its own properties in the order in which the engine enumerates them and
  \<open>JSON.stringify\<close> prints them: the array indices in ascending order first, then the
  other names in the order of their creation.
\<close>

datatype jv =
    JUndef
  | JNull
  | JBool bool
  | JNum number
  | JStr jstring
  | JArr "jv list"
  | JObj "(jstring \<times> jv) list"

text \<open>What the source can throw. \<open>Error m\<close> is \<open>new Error(m)\<close>.\<close>

datatype js_error =
    TypeError
  | SyntaxError
  | SecurityError
  | QuotaExceededError
  | Error jstring

text \<open>ToBoolean: what \<open>!x\<close>, \<open>x || y\<close> and \<open>x ? a : b\<close> test.\<close>

fun truthy :: "jv \<Rightarrow> bool" where
  "truthy JUndef = False"
| "truthy JNull = False"
| "truthy (JBool b) = b"
| "truthy (JNum n) =
     (case n of Fin q \<Rightarrow> q \<noteq> 0 | NegZero \<Rightarrow> False | PosInf \<Rightarrow> True | NegInf \<Rightarrow> True
      | NaN \<Rightarrow> False)"
| "truthy (JStr s) = (s \<noteq> [])"
| "truthy (JArr xs) = True"
| "truthy (JObj kvs) = True"

definition js_or :: "jv \<Rightarrow> jv \<Rightarrow> jv" where
  "js_or a b = (if truthy a then a else b)"

text \<open>Sequencing of steps that can throw: the first error ends the evaluation.\<close>

definition and_then :: "'e + 'a \<Rightarrow> ('a \<Rightarrow> 'e + 'b) \<Rightarrow> 'e + 'b" where
  "and_then m f = (case m of Inl e \<Rightarrow> Inl e | Inr x \<Rightarrow> f x)"

text \<open>
  Reading a property \<open>v.k\<close> for a name \<open>k\<close> that no prototype defines (every data
  field the source reads is such a name): \<open>undefined\<close> and \<open>null\<close> throw a TypeError,
  an object gives its own property or \<open>undefined\<close>, every other value gives
  \<open>undefined\<close>.
\<close>

fun get_prop :: "jv \<Rightarrow> jstring \<Rightarrow> js_error + jv" where
  "get_prop JUndef k = Inl TypeError"
| "get_prop JNull k = Inl TypeError"
| "get_prop (JObj kvs) k = Inr (case map_of kvs k of None \<Rightarrow> JUndef | Some v \<Rightarrow> v)"
| "get_prop v k = Inr JUndef"

text \<open>
  Number::toString. \<open>ns\<close> is the engine's conversion of a finite value, which is the
  shortest decimal text that reads back as the same double.
\<close>

definition number_text :: "(rat \<Rightarrow> jstring) \<Rightarrow> number \<Rightarrow> jstring" where
  "number_text ns n =
     (case n of
        Fin q \<Rightarrow> ns q
      | NegZero \<Rightarrow> asc ''0''
      | PosInf \<Rightarrow> asc ''Infinity''
      | NegInf \<Rightarrow> asc ''-Infinity''
      | NaN \<Rightarrow> asc ''NaN'')"

text \<open>
  ToString, as a template literal \<open>`${v}`\<close> and \<open>Array.prototype.join\<close> apply it.
  An array is joined with commas. A plain object gives
  \<open>[object Object]\<close>, unless it has an own property \<open>toString\<close>: a JSON value is never
  callable, \<open>Object.prototype.valueOf\<close> returns the object itself, and the conversion
  throws a TypeError. \<open>join_elems\<close> is \<open>Array.prototype.join\<close>: \<open>undefined\<close> and
  \<open>null\<close> elements give the empty string.
\<close>

fun to_string :: "(rat \<Rightarrow> jstring) \<Rightarrow> jv \<Rightarrow> js_error + jstring"
  and join_elems :: "(rat \<Rightarrow> jstring) \<Rightarrow> jstring \<Rightarrow> jv list \<Rightarrow> js_error + jstring"
  and elem_text :: "(rat \<Rightarrow> jstring) \<Rightarrow> jv \<Rightarrow> js_error + jstring" where
  "to_string ns JUndef = Inr (asc ''undefined'')"
| "to_string ns JNull = Inr (asc ''null'')"
| "to_string ns (JBool b) = Inr (if b then asc ''true'' else asc ''false'')"
| "to_string ns (JNum n) = Inr (number_text ns n)"
| "to_string ns (JStr s) = Inr s"
| "to_string ns (JArr xs) = join_elems ns (asc '','') xs"
| "to_string ns (JObj kvs) =
     (if map_of kvs (asc ''toString'') = None then Inr (asc ''[object Object]'')
      else Inl TypeError)"
| "join_elems ns sep [] = Inr []"
| "join_elems ns sep [x] = elem_text ns x"
| "join_elems ns sep (x # y # ys) =
     (case elem_text ns x of
        Inl e \<Rightarrow> Inl e
      | Inr s \<Rightarrow>
          (case join_elems ns sep (y # ys) of
             Inl e \<Rightarrow> Inl e
           | Inr t \<Rightarrow> Inr (s @ sep @ t)))"
| "elem_text ns JUndef = Inr []"
| "elem_text ns JNull = Inr []"
| "elem_text ns (JBool b) = to_string ns (JBool b)"
| "elem_text ns (JNum n) = to_string ns (JNum n)"
| "elem_text ns (JStr s) = to_string ns (JStr s)"
| "elem_text ns (JArr xs) = to_string ns (JArr xs)"
| "elem_text ns (JObj kvs) = to_string ns (JObj kvs)"

text \<open>
  Number::toString on a non-negative integer below \<open>10^21\<close> (a status code, a
  millisecond timestamp): its decimal digits.
\<close>

function dec :: "nat \<Rightarrow> jstring" where
  "dec n = (if n < 10 then [of_nat (48 + n)] else dec (n div 10) @ [of_nat (48 + n mod 10)])"
  by pat_completeness auto
termination
  by (relation "measure id") auto

declare dec.simps [simp del]

section \<open>JSON.stringify and JSON.parse\<close>

text \<open>
  \<open>JSON.stringify(v)\<close> without replacer and indentation. A string is quoted as
  QuoteJSONString does: the short escapes, \<open>\uXXXX\<close> in lower-case hexadecimal for the
  other control characters and for a surrogate that is not part of a pair, every other
  code unit as it is. \<open>undefined\<close> has no JSON text: \<open>stringify\<close> gives \<open>None\<close>
  for it, an array prints it as \<open>null\<close> and an object leaves the property out. A
  number that is not finite is printed as \<open>null\<close>, and \<open>-0\<close> as \<open>0\<close>.
\<close>

definition is_high :: "16 word \<Rightarrow> bool" where
  "is_high c = (0xD800 \<le> c \<and> c \<le> 0xDBFF)"

definition is_low :: "16 word \<Rightarrow> bool" where
  "is_low c = (0xDC00 \<le> c \<and> c \<le> 0xDFFF)"

definition hex_digit :: "nat \<Rightarrow> 16 word" where
  "hex_digit n = (if n < 10 then of_nat (48 + n) else of_nat (87 + n))"

definition unicode_escape :: "16 word \<Rightarrow> jstring" where
  "unicode_escape c =
     [0x5C, 0x75, hex_digit (unat c div 4096), hex_digit (unat c div 256 mod 16),
      hex_digit (unat c div 16 mod 16), hex_digit (unat c mod 16)]"

definition quote_unit :: "16 word \<Rightarrow> jstring" where
  "quote_unit c =
     (if c = 0x08 then [0x5C, 0x62]
      else if c = 0x09 then [0x5C, 0x74]
      else if c = 0x0A then [0x5C, 0x6E]
      else if c = 0x0C then [0x5C, 0x66]
      else if c = 0x0D then [0x5C, 0x72]
      else if c = 0x22 then [0x5C, 0x22]
      else if c = 0x5C then [0x5C, 0x5C]
      else if c < 0x20 \<or> is_high c \<or> is_low c then unicode_escape c
      else [c])"

fun quote_body :: "jstring \<Rightarrow> jstring" where
  "quote_body [] = []"
| "quote_body [c] = quote_unit c"
| "quote_body (c # d # ds) =
     (if is_high c \<and> is_low d then c # d # quote_body ds
      else quote_unit c @ quote_body (d # ds))"

definition quote :: "jstring \<Rightarrow> jstring" where
  "quote s = 0x22 # quote_body s @ [0x22]"

fun join_with :: "jstring \<Rightarrow> jstring list \<Rightarrow> jstring" where
  "join_with sep [] = []"
| "join_with sep [x] = x"
| "join_with sep (x # y # ys) = x @ sep @ join_with sep (y # ys)"

fun stringify :: "(rat \<Rightarrow> jstring) \<Rightarrow> jv \<Rightarrow> jstring option"
  and stringify_elems :: "(rat \<Rightarrow> jstring) \<Rightarrow> jv list \<Rightarrow> jstring list"
  and stringify_members :: "(rat \<Rightarrow> jstring) \<Rightarrow> (jstring \<times> jv) list \<Rightarrow> jstring list" where
  "stringify ns JUndef = None"
| "stringify ns JNull = Some (asc ''null'')"
| "stringify ns (JBool b) = Some (if b then asc ''true'' else asc ''false'')"
| "stringify ns (JNum n) =
     Some (case n of Fin q \<Rightarrow> ns q | NegZero \<Rightarrow> asc ''0'' | PosInf \<Rightarrow> asc ''null''
           | NegInf \<Rightarrow> asc ''null'' | NaN \<Rightarrow> asc ''null'')"
| "stringify ns (JStr s) = Some (quote s)"
| "stringify ns (JArr xs) = Some (asc ''['' @ join_with (asc '','') (stringify_elems ns xs) @ asc '']'')"
| "stringify ns (JObj kvs) =
     Some (asc ''{'' @ join_with (asc '','') (stringify_members ns kvs) @ asc ''}'')"
| "stringify_elems ns [] = []"
| "stringify_elems ns (x # xs) =
     (case stringify ns x of None \<Rightarrow> asc ''null'' | Some t \<Rightarrow> t) # stringify_elems ns xs"
| "stringify_members ns [] = []"
| "stringify_members ns ((k, v) # kvs) =
     (case stringify ns v of
        None \<Rightarrow> stringify_members ns kvs
      | Some t \<Rightarrow> (quote k @ asc '':'' @ t) # stringify_members ns kvs)"


text \<open>
  \<open>JSON.parse(text)\<close> without reviver, by the grammar of ECMA-404: whitespace is space,
  tab, line feed and carriage return; a string may not hold a raw control character; a
  number is \<open>-?(0|[1-9][0-9]*)(.[0-9]+)?([eE][+-]?[0-9]+)?\<close> and denotes the double
  nearest to its decimal value. A member is put into the object as \<open>CreateDataProperty\<close>
  does (\<open>js_put\<close>): a repeated key keeps its position and takes the last value, a new
  array index goes to its place among the indices, any other new key goes to the end.
  The parser descends with fuel, one unit for each value, element and member it opens;
  \<open>JSON_parse\<close> gives it \<open>2 * length s + 1\<close> units, which is more than any text of
  that length needs (\<open>JSON_parse_fuel\<close> below). Every failure is a SyntaxError.
\<close>

definition json_ws :: "16 word \<Rightarrow> bool" where
  "json_ws c = (c = 0x20 \<or> c = 0x09 \<or> c = 0x0A \<or> c = 0x0D)"

definition skip_ws :: "jstring \<Rightarrow> jstring" where
  "skip_ws s = dropWhile json_ws s"

definition hex_val :: "16 word \<Rightarrow> nat option" where
  "hex_val c =
     (if 0x30 \<le> c \<and> c \<le> 0x39 then Some (unat c - 48)
      else if 0x61 \<le> c \<and> c \<le> 0x66 then Some (unat c - 87)
      else if 0x41 \<le> c \<and> c \<le> 0x46 then Some (unat c - 55)
      else None)"

definition hex4 :: "16 word \<Rightarrow> 16 word \<Rightarrow> 16 word \<Rightarrow> 16 word \<Rightarrow> 16 word option" where
  "hex4 a b c d =
     (case (hex_val a, hex_val b, hex_val c, hex_val d) of
        (Some x, Some y, Some z, Some w) \<Rightarrow> Some (of_nat (4096 * x + 256 * y + 16 * z + w))
      | _ \<Rightarrow> None)"

definition push_unit :: "16 word \<Rightarrow> (jstring \<times> jstring) option \<Rightarrow> (jstring \<times> jstring) option" where
  "push_unit c r = (case r of None \<Rightarrow> None | Some (s, rest) \<Rightarrow> Some (c # s, rest))"

fun parse_string :: "jstring \<Rightarrow> (jstring \<times> jstring) option"
  and parse_escape :: "jstring \<Rightarrow> (jstring \<times> jstring) option" where
  "parse_string [] = None"
| "parse_string (c # cs) =
     (if c = 0x22 then Some ([], cs)
      else if c = 0x5C then parse_escape cs
      else if c < 0x20 then None
      else push_unit c (parse_string cs))"
| "parse_escape [] = None"
| "parse_escape (e # es) =
     (if e = 0x22 then push_unit 0x22 (parse_string es)
      else if e = 0x5C then push_unit 0x5C (parse_string es)
      else if e = 0x2F then push_unit 0x2F (parse_string es)
      else if e = 0x62 then push_unit 0x08 (parse_string es)
      else if e = 0x66 then push_unit 0x0C (parse_string es)
      else if e = 0x6E then push_unit 0x0A (parse_string es)
      else if e = 0x72 then push_unit 0x0D (parse_string es)
      else if e = 0x74 then push_unit 0x09 (parse_string es)
      else if e = 0x75 then
        (case es of
           a # b # c # d # rest \<Rightarrow>
             (case hex4 a b c d of None \<Rightarrow> None | Some w \<Rightarrow> push_unit w (parse_string rest))
         | _ \<Rightarrow> None)
      else None)"

definition is_digit :: "16 word \<Rightarrow> bool" where
  "is_digit c = (0x30 \<le> c \<and> c \<le> 0x39)"

definition digits_val :: "jstring \<Rightarrow> nat" where
  "digits_val ds = foldl (\<lambda>a d. 10 * a + (unat d - 48)) 0 ds"

text \<open>The exponent part of a number: \<open>(e|E)(+|-)?digits\<close>, or nothing.\<close>

definition parse_exponent :: "jstring \<Rightarrow> (int \<times> jstring) option" where
  "parse_exponent s =
     (case s of
        [] \<Rightarrow> Some (0, s)
      | e # t \<Rightarrow>
          if e = 0x65 \<or> e = 0x45 then
            (let (neg, u) = (case t of
                               [] \<Rightarrow> (False, t)
                             | g # t' \<Rightarrow> if g = 0x2D then (True, t')
                                         else if g = 0x2B then (False, t') else (False, t));
                 ds = takeWhile is_digit u
             in if ds = [] then None
                else Some ((if neg then - int (digits_val ds) else int (digits_val ds)),
                           dropWhile is_digit u))
          else Some (0, s))"

definition parse_fraction :: "jstring \<Rightarrow> (rat \<times> jstring) option" where
  "parse_fraction s =
     (case s of
        [] \<Rightarrow> Some (0, s)
      | p # t \<Rightarrow>
          if p = 0x2E then
            (let ds = takeWhile is_digit t
             in if ds = [] then None
                else Some (of_nat (digits_val ds) / 10 ^ length ds, dropWhile is_digit t))
          else Some (0, s))"

text \<open>
  The Number value for a decimal magnitude \<open>m\<close> with sign \<open>neg\<close>: \<open>m\<close> is rounded to
  the nearest double, ties to the even significand. Between \<open>2^e\<close> and \<open>2^(e+1)\<close> the
  doubles are the multiples of \<open>2^(e-52)\<close>; below \<open>2^-1022\<close> they are the multiples of
  \<open>2^-1074\<close>; a result of \<open>2^1024\<close> or more is an infinity, and a result of zero
  keeps the sign.
\<close>

function bit_length :: "nat \<Rightarrow> nat" where
  "bit_length n = (if n = 0 then 0 else Suc (bit_length (n div 2)))"
  by pat_completeness auto
termination
  by (relation "measure id") auto

declare bit_length.simps [simp del]

definition pow2 :: "int \<Rightarrow> rat" where
  "pow2 e = (if 0 \<le> e then 2 ^ nat e else 1 / 2 ^ nat (- e))"

definition round_half_even :: "rat \<Rightarrow> int" where
  "round_half_even x =
     (let f = \<lfloor>x\<rfloor>; d = x - of_int f
      in if d < 1 / 2 then f
         else if 1 / 2 < d then f + 1
         else if even f then f else f + 1)"

text \<open>The exponent \<open>e\<close> with \<open>2^e \<le> m < 2^(e+1)\<close>, for \<open>m > 0\<close>.\<close>

definition binade :: "rat \<Rightarrow> int" where
  "binade m =
     (let (a, b) = quotient_of m;
          e = int (bit_length (nat a)) - int (bit_length (nat b))
      in if pow2 e \<le> m then e else e - 1)"

definition to_double :: "rat \<Rightarrow> rat option" where
  "to_double m =
     (if m = 0 then Some 0
      else if 1024 \<le> binade m then None
      else
        (let ulp = pow2 (max (binade m) (- 1022) - 52);
             r = of_int (round_half_even (m / ulp)) * ulp
         in if binade m = 1023 \<and> round_half_even (m / ulp) = 9007199254740992 then None
            else Some r))"

definition number_value :: "bool \<Rightarrow> rat \<Rightarrow> number" where
  "number_value neg m =
     (case to_double m of
        None \<Rightarrow> (if neg then NegInf else PosInf)
      | Some r \<Rightarrow>
          if r = 0 then (if neg then NegZero else Fin 0)
          else Fin (if neg then - r else r))"

definition parse_number :: "jstring \<Rightarrow> (number \<times> jstring) option" where
  "parse_number s =
     (let (neg, s1) = (case s of
                         [] \<Rightarrow> (False, s)
                       | c # cs \<Rightarrow> if c = 0x2D then (True, cs) else (False, s));
          ip = takeWhile is_digit s1
      in if ip = [] \<or> (1 < length ip \<and> hd ip = 0x30) then None
         else
           (case parse_fraction (dropWhile is_digit s1) of
              None \<Rightarrow> None
            | Some (f, s2) \<Rightarrow>
                (case parse_exponent s2 of
                   None \<Rightarrow> None
                 | Some (x, s3) \<Rightarrow>
                     (let m = of_nat (digits_val ip) + f;
                          q = (if 0 \<le> x then m * 10 ^ nat x else m / 10 ^ nat (- x))
                      in Some (number_value neg q, s3)))))"

text \<open>
  An array index is the decimal text, without leading zeros, of an integer from \<open>0\<close> to
  \<open>2^32 - 2\<close>. \<open>precedes k k'\<close>: the engine enumerates the key \<open>k\<close> before \<open>k'\<close>
  whatever the order of their creation.
\<close>

definition array_index :: "jstring \<Rightarrow> bool" where
  "array_index k =
     (k \<noteq> [] \<and> list_all is_digit k \<and> (k = [0x30] \<or> hd k \<noteq> 0x30)
      \<and> digits_val k < 4294967295)"

definition precedes :: "jstring \<Rightarrow> jstring \<Rightarrow> bool" where
  "precedes k k' =
     (array_index k \<and> (if array_index k' then digits_val k < digits_val k' else True))"

fun js_put :: "jstring \<Rightarrow> jv \<Rightarrow> (jstring \<times> jv) list \<Rightarrow> (jstring \<times> jv) list" where
  "js_put k v [] = [(k, v)]"
| "js_put k v ((k', v') # kvs) =
     (if k = k' then (k, v) # kvs
      else if precedes k k' then (k, v) # (k', v') # kvs
      else (k', v') # js_put k v kvs)"

datatype parsed = Parsed jv jstring | Failed | OutOfFuel

fun parse_value :: "nat \<Rightarrow> jstring \<Rightarrow> parsed"
  and parse_elems :: "nat \<Rightarrow> jv list \<Rightarrow> jstring \<Rightarrow> parsed"
  and parse_members :: "nat \<Rightarrow> (jstring \<times> jv) list \<Rightarrow> jstring \<Rightarrow> parsed" where
  "parse_value 0 s = OutOfFuel"
| "parse_value (Suc n) s =
     (case skip_ws s of
        [] \<Rightarrow> Failed
      | c # cs \<Rightarrow>
          if c = 0x7B then
            (case skip_ws cs of
               [] \<Rightarrow> Failed
             | d # ds \<Rightarrow> if d = 0x7D then Parsed (JObj []) ds else parse_members n [] cs)
          else if c = 0x5B then
            (case skip_ws cs of
               [] \<Rightarrow> Failed
             | d # ds \<Rightarrow> if d = 0x5D then Parsed (JArr []) ds else parse_elems n [] cs)
          else if c = 0x22 then
            (case parse_string cs of
               None \<Rightarrow> Failed
             | Some (str, rest) \<Rightarrow> Parsed (JStr str) rest)
          else if prefix (asc ''true'') (c # cs) then Parsed (JBool True) (drop 4 (c # cs))
          else if prefix (asc ''false'') (c # cs) then Parsed (JBool False) (drop 5 (c # cs))
          else if prefix (asc ''null'') (c # cs) then Parsed JNull (drop 4 (c # cs))
          else
            (case parse_number (c # cs) of
               None \<Rightarrow> Failed
             | Some (q, rest) \<Rightarrow> Parsed (JNum q) rest))"
| "parse_elems 0 acc s = OutOfFuel"
| "parse_elems (Suc n) acc s =
     (case parse_value n s of
        Parsed v rest \<Rightarrow>
          (case skip_ws rest of
             [] \<Rightarrow> Failed
           | c # cs \<Rightarrow>
               if c = 0x2C then parse_elems n (acc @ [v]) cs
               else if c = 0x5D then Parsed (JArr (acc @ [v])) cs
               else Failed)
      | Failed \<Rightarrow> Failed
      | OutOfFuel \<Rightarrow> OutOfFuel)"
| "parse_members 0 acc s = OutOfFuel"
| "parse_members (Suc n) acc s =
     (case skip_ws s of
        [] \<Rightarrow> Failed
      | c # cs \<Rightarrow>
          if c = 0x22 then
            (case parse_string cs of
               None \<Rightarrow> Failed
             | Some (k, r1) \<Rightarrow>
                 (case skip_ws r1 of
                    [] \<Rightarrow> Failed
                  | d # ds \<Rightarrow>
                      if d = 0x3A then
                        (case parse_value n ds of
                           Parsed v r2 \<Rightarrow>
                             (case skip_ws r2 of
                                [] \<Rightarrow> Failed
                              | e # es \<Rightarrow>
                                  if e = 0x2C then parse_members n (js_put k v acc) es
                                  else if e = 0x7D then Parsed (JObj (js_put k v acc)) es
                                  else Failed)
                         | Failed \<Rightarrow> Failed
                         | OutOfFuel \<Rightarrow> OutOfFuel)
                      else Failed))
          else Failed)"

definition JSON_parse :: "jstring \<Rightarrow> js_error + jv" where
  "JSON_parse s =
     (case parse_value (2 * length s + 1) s of
        Parsed v rest \<Rightarrow> if skip_ws rest = [] then Inr v else Inl SyntaxError
      | Failed \<Rightarrow> Inl SyntaxError
      | OutOfFuel \<Rightarrow> Inl SyntaxError)"

section \<open>The report type (types/report.ts) and the analyzer (lib/analyzer.ts)\<close>

record RepositoryInfo =
  url :: jstring
  owner :: jstring
  repo :: jstring
  analyzedAt :: jstring

text \<open>
  \<open>ProductionReport\<close> as it exists at run time: \<open>id\<close> (here \<open>id'\<close>), \<open>repository\<close> and
  \<open>createdAt\<close> are built locally from strings; the other fields hold whatever JSON the
  proxy returned, since the cast \<open>as ReadinessStatus\<close> and the declared array types are
  erased by the compiler.
\<close>

record ProductionReport =
  id' :: jstring
  repository :: RepositoryInfo
  summary :: jv
  overallStatus :: jv
  domains :: jv
  criticalIssues :: jv
  recommendations :: jv
  conclusion :: jv
  createdAt :: jstring

definition txt_no_summary :: jstring where
  "txt_no_summary = [0x644, 0x645, 0x20, 0x64A, 0x62A, 0x645, 0x20, 0x62A, 0x648, 0x641,
     0x64A, 0x631, 0x20, 0x645, 0x644, 0x62E, 0x635]"

definition txt_no_conclusion :: jstring where
  "txt_no_conclusion = [0x644, 0x645, 0x20, 0x64A, 0x62A, 0x645, 0x20, 0x627, 0x644, 0x62A,
     0x648, 0x635, 0x644, 0x20, 0x625, 0x644, 0x649, 0x20, 0x62E, 0x644, 0x627, 0x635,
     0x629]"

definition txt_analysis_failed :: jstring where
  "txt_analysis_failed = [0x62D, 0x62F, 0x62B, 0x20, 0x62E, 0x637, 0x623, 0x20, 0x623,
     0x62B, 0x646, 0x627, 0x621, 0x20, 0x62A, 0x62D, 0x644, 0x64A, 0x644, 0x20, 0x627,
     0x644, 0x645, 0x633, 0x62A, 0x648, 0x62F, 0x639]"

definition txt_service_failure :: jstring where
  "txt_service_failure = [0x641, 0x634, 0x644, 0x20, 0x641, 0x64A, 0x20, 0x62A, 0x648,
     0x644, 0x64A, 0x62F, 0x20, 0x627, 0x644, 0x62A, 0x642, 0x631, 0x64A, 0x631, 0x20,
     0x628, 0x633, 0x628, 0x628, 0x20, 0x62E, 0x637, 0x623, 0x20, 0x641, 0x64A, 0x20,
     0x627, 0x644, 0x62E, 0x62F, 0x645, 0x629]"

definition txt_try_later :: jstring where
  "txt_try_later = [0x64A, 0x631, 0x62C, 0x649, 0x20, 0x627, 0x644, 0x645, 0x62D, 0x627,
     0x648, 0x644, 0x629, 0x20, 0x645, 0x631, 0x629, 0x20, 0x623, 0x62E, 0x631, 0x649,
     0x20, 0x644, 0x627, 0x62D, 0x642, 0x627, 0x64B]"

definition txt_not_completed :: jstring where
  "txt_not_completed = [0x644, 0x645, 0x20, 0x64A, 0x62A, 0x645, 0x20, 0x625, 0x643, 0x645,
     0x627, 0x644, 0x20, 0x627, 0x644, 0x62A, 0x62D, 0x644, 0x64A, 0x644, 0x20, 0x628,
     0x646, 0x62C, 0x627, 0x62D]"

text \<open>
  What \<open>fetch\<close> resolved to, as \<open>callProxyAnalysis\<close> reads it: \<open>response.ok\<close>,
  \<open>status\<close>, \<open>statusText\<close> and the outcome of \<open>response.json()\<close>, which rejects when
  the body is not JSON.
\<close>

record http_response =
  ok :: bool
  status :: nat
  statusText :: jstring
  json :: "js_error + jv"

text \<open>
  \<open>callProxyAnalysis\<close>, given the outcome of its \<open>fetch\<close> (a rejection, or a
  response). A response that is not ok throws \<open>new Error(errorData.error || `HTTP ...`)\<close>;
  otherwise the result is \<open>result.data\<close>.
\<close>

definition callProxyAnalysis ::
  "(rat \<Rightarrow> jstring) \<Rightarrow> js_error + http_response \<Rightarrow> js_error + jv" where
  "callProxyAnalysis ns fetched =
     (case fetched of
        Inl e \<Rightarrow> Inl e
      | Inr response \<Rightarrow>
          if \<not> ok response then
            (let errorData =
                   (case json response of
                      Inl e \<Rightarrow> JObj [(asc ''error'', JStr (asc ''Unknown error''))]
                    | Inr d \<Rightarrow> d)
             in case get_prop errorData (asc ''error'') of
                  Inl e \<Rightarrow> Inl e
                | Inr m \<Rightarrow>
                    (case to_string ns
                            (js_or m (JStr (asc ''HTTP '' @ dec (status response) @ asc '': ''
                                            @ statusText response))) of
                       Inl e \<Rightarrow> Inl e
                     | Inr msg \<Rightarrow> Inl (Error msg)))
          else
            (case json response of
               Inl e \<Rightarrow> Inl e
             | Inr result \<Rightarrow> get_prop result (asc ''data'')))"

text \<open>
  The report object literal of the \<open>try\<close> block, from the value \<open>reportData\<close> that
  \<open>callProxyAnalysis\<close> returned. Reading \<open>reportData.summary\<close> throws when
  \<open>reportData\<close> is \<open>undefined\<close> or \<open>null\<close>. \<open>now\<close> is the reading of
  \<open>Date.now()\<close> that goes into the id.
\<close>

definition build_report ::
  "jstring \<Rightarrow> jstring \<Rightarrow> jstring \<Rightarrow> jstring \<Rightarrow> nat \<Rightarrow> jv \<Rightarrow> js_error + ProductionReport" where
  "build_report owner' repo' url' analyzedAt' now reportData =
     and_then (get_prop reportData (asc ''summary'')) (\<lambda>summary'.
     and_then (get_prop reportData (asc ''overallStatus'')) (\<lambda>overallStatus'.
     and_then (get_prop reportData (asc ''domains'')) (\<lambda>domains'.
     and_then (get_prop reportData (asc ''criticalIssues'')) (\<lambda>criticalIssues'.
     and_then (get_prop reportData (asc ''recommendations'')) (\<lambda>recommendations'.
     and_then (get_prop reportData (asc ''conclusion'')) (\<lambda>conclusion'.
       Inr \<lparr> id' = asc ''report-'' @ dec now,
             repository = \<lparr> url = url', owner = owner', repo = repo',
                            analyzedAt = analyzedAt' \<rparr>,
             summary = js_or summary' (JStr txt_no_summary),
             overallStatus = js_or overallStatus' (JStr (asc ''unknown'')),
             domains = js_or domains' (JArr []),
             criticalIssues = js_or criticalIssues' (JArr []),
             recommendations = js_or recommendations' (JArr []),
             conclusion = js_or conclusion' (JStr txt_no_conclusion),
             createdAt = analyzedAt' \<rparr>))))))"

text \<open>The fallback report of the \<open>catch\<close> block.\<close>

definition fallback_report ::
  "jstring \<Rightarrow> jstring \<Rightarrow> jstring \<Rightarrow> jstring \<Rightarrow> nat \<Rightarrow> ProductionReport" where
  "fallback_report owner' repo' url' analyzedAt' now =
     \<lparr> id' = asc ''report-'' @ dec now,
       repository = \<lparr> url = url', owner = owner', repo = repo', analyzedAt = analyzedAt' \<rparr>,
       summary = JStr txt_analysis_failed,
       overallStatus = JStr (asc ''unknown''),
       domains = JArr [],
       criticalIssues = JArr [JStr txt_service_failure],
       recommendations = JArr [JStr txt_try_later],
       conclusion = JStr txt_not_completed,
       createdAt = analyzedAt' \<rparr>"

text \<open>
  \<open>generateProductionReport(owner, repo, url)\<close>. Its inputs from the environment are
  \<open>analyzedAt\<close> (\<open>new Date().toISOString()\<close>), the outcome of the \<open>fetch\<close> inside
  \<open>callProxyAnalysis\<close>, and \<open>now\<close>, the reading of \<open>Date.now()\<close> for the report that
  is returned. \<open>analyzeRepository\<close> catches its own errors and only feeds the request
  body. Whatever the \<open>try\<close> block throws, the \<open>catch\<close> block returns the fallback.
\<close>

definition generateProductionReport ::
  "(rat \<Rightarrow> jstring) \<Rightarrow> jstring \<Rightarrow> jstring \<Rightarrow> jstring \<Rightarrow> jstring \<Rightarrow> nat
     \<Rightarrow> js_error + http_response \<Rightarrow> ProductionReport" where
  "generateProductionReport ns owner' repo' url' analyzedAt' now fetched =
     (case callProxyAnalysis ns fetched of
        Inl e \<Rightarrow> fallback_report owner' repo' url' analyzedAt' now
      | Inr reportData \<Rightarrow>
          (case build_report owner' repo' url' analyzedAt' now reportData of
             Inl e \<Rightarrow> fallback_report owner' repo' url' analyzedAt' now
           | Inr report \<Rightarrow> report))"

section \<open>The report list of the application (App.tsx)\<close>

text \<open>
  The state \<open>reports\<close> is a list of reports, or \<open>null\<close>/\<open>undefined\<close>, which the
  handlers guard with \<open>currentReports || []\<close>.
\<close>

definition or_empty :: "'a list option \<Rightarrow> 'a list" where
  "or_empty currentReports = (case currentReports of None \<Rightarrow> [] | Some rs \<Rightarrow> rs)"

text \<open>\<open>handleAnalyze\<close>: \<open>setReports(cur => [report, ...(cur || [])])\<close>.\<close>

definition handleAnalyze ::
  "ProductionReport \<Rightarrow> ProductionReport list option \<Rightarrow> ProductionReport list" where
  "handleAnalyze report currentReports = report # or_empty currentReports"

text \<open>\<open>handleDeleteReport\<close>: \<open>(cur || []).filter(r => r.id !== reportId)\<close>.\<close>

definition handleDeleteReport ::
  "jstring \<Rightarrow> ProductionReport list option \<Rightarrow> ProductionReport list" where
  "handleDeleteReport reportId currentReports =
     filter (\<lambda>r. id' r \<noteq> reportId) (or_empty currentReports)"

section \<open>Browser-local persistence (useKV in App.tsx)\<close>

text \<open>
  \<open>localStorage\<close>: the stored items, whether reading is allowed at all (\<open>getItem\<close>
  throws a SecurityError when storage is blocked), and which writes the browser accepts
  (\<open>setItem\<close> throws when the quota is exceeded).
\<close>

record local_storage =
  items :: "jstring \<Rightarrow> jstring option"
  readable :: bool
  accepts :: "jstring \<Rightarrow> jstring \<Rightarrow> bool"

definition getItem :: "local_storage \<Rightarrow> jstring \<Rightarrow> js_error + jstring option" where
  "getItem st k = (if readable st then Inr (items st k) else Inl SecurityError)"


text \<open>
  The initial state of \<open>useKV(key, defaultValue)\<close>:
  \<open>try { stored = getItem(key); return stored ? JSON.parse(stored) : defaultValue }
  catch { return defaultValue }\<close>.
\<close>

definition useKV_init :: "local_storage \<Rightarrow> jstring \<Rightarrow> jv \<Rightarrow> jv" where
  "useKV_init st key defaultValue =
     (case getItem st key of
        Inl e \<Rightarrow> defaultValue
      | Inr None \<Rightarrow> defaultValue
      | Inr (Some stored) \<Rightarrow>
          if stored = [] then defaultValue
          else (case JSON_parse stored of Inl e \<Rightarrow> defaultValue | Inr v \<Rightarrow> v))"




definition reports_key :: jstring where
  "reports_key = asc ''production-reports''"

section \<open>Display side (ReportView.tsx, StatusBadge.tsx, handleExport in App.tsx)\<close>

text \<open>\<open>ensureArray\<close> of ReportView.\<close>

fun ensureArray :: "jv \<Rightarrow> jv list" where
  "ensureArray JUndef = []"
| "ensureArray JNull = []"
| "ensureArray (JBool b) = []"
| "ensureArray (JNum n) = []"
| "ensureArray (JStr s) = (if s = [] then [] else [JStr s])"
| "ensureArray (JArr xs) = xs"
| "ensureArray (JObj kvs) = [JObj kvs]"

text \<open>
  \<open>StatusBadge\<close>, which ReportView and ReportHistory render for \<open>overallStatus\<close> and
  for each \<open>domain.status\<close>. \<open>configs\<close> is its table, an object literal with four own
  properties.
\<close>

datatype icon = CheckCircle | Warning | XCircle | Question

datatype badge_size = Sm | Md | Lg

record badge_config =
  label :: jstring
  className :: jstring
  icon :: icon

definition config_unknown :: badge_config where
  "config_unknown =
     \<lparr> label = [0x63A, 0x64A, 0x631, 0x20, 0x645, 0x639, 0x631, 0x648, 0x641],
       className = asc ''bg-muted text-muted-foreground'',
       icon = Question \<rparr>"

definition configs :: "(jstring \<times> badge_config) list" where
  "configs =
     [(asc ''ready'',
         \<lparr> label = [0x62C, 0x627, 0x647, 0x632],
           className = asc ''bg-success text-success-foreground'',
           icon = CheckCircle \<rparr>),
      (asc ''conditional'',
         \<lparr> label = [0x62C, 0x627, 0x647, 0x632, 0x20, 0x628, 0x634, 0x631, 0x648, 0x637],
           className = asc ''bg-warning text-warning-foreground'',
           icon = Warning \<rparr>),
      (asc ''not-ready'',
         \<lparr> label = [0x63A, 0x64A, 0x631, 0x20, 0x62C, 0x627, 0x647, 0x632],
           className = asc ''bg-destructive text-destructive-foreground'',
           icon = XCircle \<rparr>),
      (asc ''unknown'', config_unknown)]"

text \<open>
  \<open>configs[status]\<close> also finds what the table inherits: the names that
  \<open>Object.prototype\<close> defines. Each of them holds a function or an object, which is
  truthy and has none of \<open>label\<close>, \<open>className\<close> and \<open>icon\<close>.
\<close>

definition object_prototype_names :: "jstring list" where
  "object_prototype_names =
     map asc [''constructor'', ''__defineGetter__'', ''__defineSetter__'', ''hasOwnProperty'',
              ''__lookupGetter__'', ''__lookupSetter__'', ''isPrototypeOf'',
              ''propertyIsEnumerable'', ''toString'', ''valueOf'', ''__proto__'',
              ''toLocaleString'']"

datatype looked_up = Own badge_config | Inherited | Absent

definition lookup_config :: "jstring \<Rightarrow> looked_up" where
  "lookup_config key =
     (case map_of configs key of
        Some c \<Rightarrow> Own c
      | None \<Rightarrow> if key \<in> set object_prototype_names then Inherited else Absent)"

definition sizeClasses :: "badge_size \<Rightarrow> jstring" where
  "sizeClasses sz =
     (case sz of
        Sm \<Rightarrow> asc ''text-xs px-2 py-0.5''
      | Md \<Rightarrow> asc ''text-sm px-3 py-1''
      | Lg \<Rightarrow> asc ''text-base px-4 py-1.5'')"

text \<open>
  The element that \<open>StatusBadge\<close> returns: the class of the \<open>Badge\<close>, the icon
  component and its size, and the label. The property key of \<open>configs[status]\<close> is
  \<open>status\<close> converted to a string. \<open>config = configs[status] || configs.unknown\<close>; when
  \<open>config\<close> is an inherited member, \<open>config.className\<close> prints as \<open>undefined\<close> and
  the icon and the label are \<open>undefined\<close> (\<open>None\<close>).
\<close>

record badge =
  badge_class :: jstring
  badge_icon :: "icon option"
  icon_size :: nat
  badge_label :: "jstring option"

definition StatusBadge :: "(rat \<Rightarrow> jstring) \<Rightarrow> jv \<Rightarrow> badge_size \<Rightarrow> js_error + badge" where
  "StatusBadge ns status' sz =
     and_then (to_string ns status') (\<lambda>key.
       (let config = (case lookup_config key of
                        Own c \<Rightarrow> Some c
                      | Inherited \<Rightarrow> None
                      | Absent \<Rightarrow> Some config_unknown)
        in Inr \<lparr> badge_class =
                    (case config of None \<Rightarrow> asc ''undefined'' | Some c \<Rightarrow> className c)
                    @ asc '' '' @ sizeClasses sz @ asc '' gap-1.5 font-semibold'',
                  badge_icon = map_option icon config,
                  icon_size = (case sz of Sm \<Rightarrow> 14 | Md \<Rightarrow> 16 | Lg \<Rightarrow> 18),
                  badge_label = map_option label config \<rparr>))"

text \<open>The labels of the exported Markdown text.\<close>

definition label_ready :: jstring where
  "label_ready = [0x2705, 0x20, 0x62C, 0x627, 0x647, 0x632]"

definition label_conditional :: jstring where
  "label_conditional = [0x26A0, 0xFE0F, 0x20, 0x62C, 0x627, 0x647, 0x632, 0x20, 0x628,
     0x634, 0x631, 0x648, 0x637]"

definition label_not_ready :: jstring where
  "label_not_ready = [0x274C, 0x20, 0x63A, 0x64A, 0x631, 0x20, 0x62C, 0x627, 0x647, 0x632]"

definition label_unknown :: jstring where
  "label_unknown = [0x2753, 0x20, 0x63A, 0x64A, 0x631, 0x20, 0x645, 0x639, 0x631, 0x648,
     0x641]"

definition txt_no_domains :: jstring where
  "txt_no_domains = [0x644, 0x627, 0x20, 0x62A, 0x648, 0x62C, 0x62F, 0x20, 0x628, 0x64A,
     0x627, 0x646, 0x627, 0x62A, 0x20, 0x62A, 0x642, 0x64A, 0x64A, 0x645, 0x20, 0x627,
     0x644, 0x645, 0x62C, 0x627, 0x644, 0x627, 0x62A]"

definition txt_no_critical :: jstring where
  "txt_no_critical = [0x644, 0x627, 0x20, 0x62A, 0x648, 0x62C, 0x62F, 0x20, 0x645, 0x634,
     0x627, 0x643, 0x644, 0x20, 0x62D, 0x631, 0x62C, 0x629]"

definition txt_no_recommendations :: jstring where
  "txt_no_recommendations = [0x644, 0x627, 0x20, 0x62A, 0x648, 0x62C, 0x62F, 0x20, 0x62A,
     0x648, 0x635, 0x64A, 0x627, 0x62A]"

text \<open>
  ToNumber, for the comparison \<open>x.length > 0\<close>. \<open>sn\<close> is StringToNumber; an array
  or object is converted to a string first.
\<close>

definition to_number ::
  "(rat \<Rightarrow> jstring) \<Rightarrow> (jstring \<Rightarrow> number) \<Rightarrow> jv \<Rightarrow> js_error + number" where
  "to_number ns sn v =
     (case v of
        JUndef \<Rightarrow> Inr NaN
      | JNull \<Rightarrow> Inr (Fin 0)
      | JBool b \<Rightarrow> Inr (Fin (if b then 1 else 0))
      | JNum n \<Rightarrow> Inr n
      | JStr s \<Rightarrow> Inr (sn s)
      | JArr xs \<Rightarrow> (case to_string ns v of Inl e \<Rightarrow> Inl e | Inr s \<Rightarrow> Inr (sn s))
      | JObj kvs \<Rightarrow> (case to_string ns v of Inl e \<Rightarrow> Inl e | Inr s \<Rightarrow> Inr (sn s)))"

text \<open>\<open>n > 0\<close> for a Number \<open>n\<close>.\<close>

definition positive :: "number \<Rightarrow> bool" where
  "positive n =
     (case n of Fin q \<Rightarrow> 0 < q | NegZero \<Rightarrow> False | PosInf \<Rightarrow> True | NegInf \<Rightarrow> False
      | NaN \<Rightarrow> False)"

text \<open>\<open>x.length > 0\<close>, for \<open>x\<close> that is not \<open>undefined\<close> or \<open>null\<close>.\<close>

definition length_positive ::
  "(rat \<Rightarrow> jstring) \<Rightarrow> (jstring \<Rightarrow> number) \<Rightarrow> jv \<Rightarrow> js_error + bool" where
  "length_positive ns sn x =
     (case x of
        JUndef \<Rightarrow> Inl TypeError
      | JNull \<Rightarrow> Inl TypeError
      | JBool b \<Rightarrow> Inr False
      | JNum n \<Rightarrow> Inr False
      | JStr s \<Rightarrow> Inr (s \<noteq> [])
      | JArr xs \<Rightarrow> Inr (xs \<noteq> [])
      | JObj kvs \<Rightarrow>
          (case to_number ns sn (case map_of kvs (asc ''length'') of
                                    None \<Rightarrow> JUndef
                                  | Some l \<Rightarrow> l) of
             Inl e \<Rightarrow> Inl e
           | Inr n \<Rightarrow> Inr (positive n)))"

text \<open>\<open>xs.map(f)\<close> with a callback that can throw: the first error ends the loop.\<close>

fun map_err :: "('a \<Rightarrow> 'e + 'b) \<Rightarrow> 'a list \<Rightarrow> 'e + 'b list" where
  "map_err f [] = Inr []"
| "map_err f (x # xs) =
     (case f x of
        Inl e \<Rightarrow> Inl e
      | Inr y \<Rightarrow> (case map_err f xs of Inl e \<Rightarrow> Inl e | Inr ys \<Rightarrow> Inr (y # ys)))"

text \<open>
  \<open>x.map(i => `- ${i}`).join('\n')\<close>: only an array has \<open>map\<close>; on any other value
  the call throws a TypeError.
\<close>

definition bullet_lines :: "(rat \<Rightarrow> jstring) \<Rightarrow> jv \<Rightarrow> js_error + jstring" where
  "bullet_lines ns x =
     (case x of
        JArr xs \<Rightarrow>
          (case map_err (\<lambda>i. case to_string ns i of
                                 Inl e \<Rightarrow> Inl e
                               | Inr t \<Rightarrow> Inr (asc ''- '' @ t)) xs of
             Inl e \<Rightarrow> Inl e
           | Inr ls \<Rightarrow> Inr (join_with [0x0A] ls))
      | _ \<Rightarrow> Inl TypeError)"

text \<open>\<open>x.length > 0 ? x.map(i => `- ${i}`).join('\n') : none\<close>.\<close>

definition section_text ::
  "(rat \<Rightarrow> jstring) \<Rightarrow> (jstring \<Rightarrow> number) \<Rightarrow> jv \<Rightarrow> jstring \<Rightarrow> js_error + jstring" where
  "section_text ns sn x none =
     (case length_positive ns sn x of
        Inl e \<Rightarrow> Inl e
      | Inr True \<Rightarrow> bullet_lines ns x
      | Inr False \<Rightarrow> Inr none)"

definition overall_label :: "jv \<Rightarrow> jstring" where
  "overall_label st =
     (if st = JStr (asc ''ready'') then label_ready
      else if st = JStr (asc ''conditional'') then label_conditional
      else label_not_ready)"

definition domain_label :: "jv \<Rightarrow> jstring" where
  "domain_label st =
     (if st = JStr (asc ''ready'') then label_ready
      else if st = JStr (asc ''conditional'') then label_conditional
      else if st = JStr (asc ''not-ready'') then label_not_ready
      else label_unknown)"

text \<open>
  The callback of \<open>domains.map((domain, i) => `...`)\<close>. The fixed text of the template
  between its substitutions is the parameter \<open>dseg\<close> (piece \<open>k\<close> is \<open>dseg k\<close>).
\<close>

definition render_domain ::
  "(rat \<Rightarrow> jstring) \<Rightarrow> (nat \<Rightarrow> jstring) \<Rightarrow> nat \<Rightarrow> jv \<Rightarrow> js_error + jstring" where
  "render_domain ns dseg i domain =
     and_then (get_prop domain (asc ''title'')) (\<lambda>title.
     and_then (to_string ns title) (\<lambda>title_text.
     and_then (get_prop domain (asc ''status'')) (\<lambda>status'.
     and_then (get_prop domain (asc ''description'')) (\<lambda>description.
     and_then (to_string ns description) (\<lambda>description_text.
     and_then (get_prop domain (asc ''findings'')) (\<lambda>findings.
     and_then (bullet_lines ns (js_or findings (JArr []))) (\<lambda>findings_text.
     and_then (get_prop domain (asc ''recommendations'')) (\<lambda>recs.
     and_then (bullet_lines ns (js_or recs (JArr []))) (\<lambda>recs_text.
       Inr (dseg 0 @ dec (i + 1) @ dseg 1 @ title_text @ dseg 2 @ domain_label status'
            @ dseg 3 @ description_text @ dseg 4 @ findings_text @ dseg 5 @ recs_text
            @ dseg 6))))))))))"

text \<open>\<open>domains.length > 0 ? domains.map(...).join('\n') : '...'\<close>.\<close>

definition render_domains ::
  "(rat \<Rightarrow> jstring) \<Rightarrow> (jstring \<Rightarrow> number) \<Rightarrow> (nat \<Rightarrow> jstring) \<Rightarrow> jv
     \<Rightarrow> js_error + jstring" where
  "render_domains ns sn dseg x =
     (case length_positive ns sn x of
        Inl e \<Rightarrow> Inl e
      | Inr False \<Rightarrow> Inr txt_no_domains
      | Inr True \<Rightarrow>
          (case x of
             JArr ds \<Rightarrow>
               (case map_err (\<lambda>(i, d). render_domain ns dseg i d) (List.enumerate 0 ds) of
                  Inl e \<Rightarrow> Inl e
                | Inr ts \<Rightarrow> Inr (join_with [0x0A] ts))
           | _ \<Rightarrow> Inl TypeError))"

text \<open>
  \<open>handleExport\<close>, up to the Markdown text it builds (the download that follows only
  carries the text out). \<open>None\<close>: there is no current report and nothing is exported.
  \<open>fmt\<close> is \<open>new Date(s).toLocaleString('ar-SA')\<close>; \<open>seg\<close> is the fixed text of the
  template between its substitutions.
\<close>

definition handleExport ::
  "(rat \<Rightarrow> jstring) \<Rightarrow> (jstring \<Rightarrow> number) \<Rightarrow> (jstring \<Rightarrow> jstring) \<Rightarrow> (nat \<Rightarrow> jstring)
     \<Rightarrow> (nat \<Rightarrow> jstring) \<Rightarrow> ProductionReport option \<Rightarrow> js_error + jstring option" where
  "handleExport ns sn fmt seg dseg currentReport =
     (case currentReport of
        None \<Rightarrow> Inr None
      | Some r \<Rightarrow>
          and_then (to_string ns (summary r)) (\<lambda>summary_text.
          and_then (render_domains ns sn dseg (js_or (domains r) (JArr []))) (\<lambda>domains_text.
          and_then (section_text ns sn (js_or (criticalIssues r) (JArr [])) txt_no_critical)
            (\<lambda>issues_text.
          and_then (section_text ns sn (js_or (recommendations r) (JArr []))
                      txt_no_recommendations) (\<lambda>recs_text.
          and_then (to_string ns (conclusion r)) (\<lambda>conclusion_text.
            Inr (Some (seg 0 @ url (repository r) @ seg 1 @ owner (repository r) @ seg 2
                       @ repo (repository r) @ seg 3 @ fmt (createdAt r) @ seg 4
                       @ overall_label (overallStatus r) @ seg 5 @ summary_text @ seg 6
                       @ domains_text @ seg 7 @ issues_text @ seg 8 @ recs_text @ seg 9
                       @ conclusion_text @ seg 10))))))))"

section \<open>The proxy server\<close>

subsection \<open>Sanitizing the model's text\<close>

text \<open>The characters that the regular expression class \<open>\s\<close> and \<open>trim()\<close> treat as space.\<close>

definition js_space :: "16 word \<Rightarrow> bool" where
  "js_space c =
     (c = 0x09 \<or> c = 0x0A \<or> c = 0x0B \<or> c = 0x0C \<or> c = 0x0D \<or> c = 0x20 \<or> c = 0xA0
      \<or> c = 0x1680 \<or> (0x2000 \<le> c \<and> c \<le> 0x200A) \<or> c = 0x2028 \<or> c = 0x2029
      \<or> c = 0x202F \<or> c = 0x205F \<or> c = 0x3000 \<or> c = 0xFEFF)"

text \<open>Three backticks, and three backticks followed by \<open>json\<close>.\<close>

definition fence :: jstring where
  "fence = [0x60, 0x60, 0x60]"

definition fence_json :: jstring where
  "fence_json = fence @ asc ''json''"

text \<open>
  \<open>.replace(/```json\s*/g, '')\<close>: from left to right, every occurrence of the opening
  marker is removed together with the white space that follows it.
\<close>

function remove_json_fences :: "jstring \<Rightarrow> jstring" where
  "remove_json_fences s =
     (case s of
        [] \<Rightarrow> []
      | c # cs \<Rightarrow>
          if prefix fence_json s then remove_json_fences (dropWhile js_space (drop 7 s))
          else c # remove_json_fences cs)"
  by pat_completeness auto
termination
  by (relation "measure length")
     (auto intro: le_less_trans [OF length_dropWhile_le])

declare remove_json_fences.simps [simp del]

text \<open>
  \<open>.replace(/```\s*$/g, '')\<close>: without the \<open>m\<close> flag \<open>$\<close> is the end of the text, so
  the only possible match is three backticks followed by nothing but white space up to
  the end; the text is cut there.
\<close>

fun remove_final_fence :: "jstring \<Rightarrow> jstring" where
  "remove_final_fence [] = []"
| "remove_final_fence (c # cs) =
     (if prefix fence (c # cs) \<and> list_all js_space (drop 3 (c # cs)) then []
      else c # remove_final_fence cs)"

definition trim :: "jstring \<Rightarrow> jstring" where
  "trim s = rev (dropWhile js_space (rev (dropWhile js_space s)))"

definition cleanText :: "jstring \<Rightarrow> jstring" where
  "cleanText responseText = trim (remove_final_fence (remove_json_fences responseText))"

subsection \<open>Small JavaScript operations the handlers use\<close>

fun js_not :: "jv \<Rightarrow> bool" where
  "js_not v = (\<not> truthy v)"

definition js_includes :: "jstring \<Rightarrow> jstring \<Rightarrow> bool" where
  "js_includes s needle = sublist needle s"

text \<open>\<open>t || d\<close> for a string \<open>t\<close>.\<close>

definition or_text :: "jstring \<Rightarrow> jstring \<Rightarrow> jstring" where
  "or_text t d = (if t = [] then d else t)"

text \<open>\<open>v.join(sep)\<close>: only an array has \<open>join\<close>.\<close>

definition js_join :: "(rat \<Rightarrow> jstring) \<Rightarrow> jv \<Rightarrow> jstring \<Rightarrow> js_error + jstring" where
  "js_join ns v sep = (case v of JArr xs \<Rightarrow> join_elems ns sep xs | _ \<Rightarrow> Inl TypeError)"

text \<open>\<open>x?.k\<close> and \<open>x?.[0]\<close>.\<close>

definition opt_get :: "jv \<Rightarrow> jstring \<Rightarrow> jv" where
  "opt_get x k =
     (case x of
        JObj kvs \<Rightarrow> (case map_of kvs k of None \<Rightarrow> JUndef | Some v \<Rightarrow> v)
      | _ \<Rightarrow> JUndef)"

definition opt_first :: "jv \<Rightarrow> jv" where
  "opt_first x =
     (case x of
        JArr xs \<Rightarrow> (case xs of [] \<Rightarrow> JUndef | a # _ \<Rightarrow> a)
      | JStr t \<Rightarrow> (case t of [] \<Rightarrow> JUndef | c # _ \<Rightarrow> JStr [c])
      | JObj kvs \<Rightarrow> (case map_of kvs (asc ''0'') of None \<Rightarrow> JUndef | Some v \<Rightarrow> v)
      | _ \<Rightarrow> JUndef)"

text \<open>\<open>data.candidates?.[0]?.content?.parts?.[0]?.text\<close>.\<close>

definition response_text :: "jv \<Rightarrow> js_error + jv" where
  "response_text data =
     and_then (get_prop data (asc ''candidates'')) (\<lambda>candidates.
       Inr (opt_get (opt_first (opt_get (opt_get (opt_first candidates) (asc ''content''))
                                        (asc ''parts'')))
                    (asc ''text'')))"

text \<open>
  \<open>error.message\<close>: the text given to \<open>new Error\<close>, or the engine's own text
  (\<open>emsg\<close>) for an error the engine raised.
\<close>

definition error_message :: "(js_error \<Rightarrow> jstring) \<Rightarrow> js_error \<Rightarrow> jstring" where
  "error_message emsg e = (case e of Error m \<Rightarrow> m | _ \<Rightarrow> emsg e)"

text \<open>\<open>`${JSON.stringify(v)}`\<close>.\<close>

definition stringify_text :: "(rat \<Rightarrow> jstring) \<Rightarrow> jv \<Rightarrow> jstring" where
  "stringify_text ns v = (case stringify ns v of None \<Rightarrow> asc ''undefined'' | Some t \<Rightarrow> t)"

definition dec_int :: "int \<Rightarrow> jstring" where
  "dec_int i = (if i < 0 then asc ''-'' @ dec (nat (- i)) else dec (nat i))"

text \<open>\<open>process.env.A || process.env.B\<close>.\<close>

definition env_or :: "jstring option \<Rightarrow> jstring option \<Rightarrow> jstring option" where
  "env_or a b = (case a of None \<Rightarrow> b | Some t \<Rightarrow> if t = [] then b else Some t)"

text \<open>What a handler sends: \<open>res.status(c).json(payload)\<close>; \<open>res.json\<close> alone is 200.\<close>

record http_reply =
  status_code :: nat
  payload :: jv

subsection \<open>buildAnalysisPrompt, the short template (unnamed/part_000)\<close>

definition txt_unspecified_000 :: jstring where
  "txt_unspecified_000 = [0xD8, 0xBA, 0xD9, 0x160, 0xD8, 0xB1, 0x20, 0xD9, 0x2026, 0xD8,
     0xAD, 0xD8, 0xAF, 0xD8, 0xAF, 0xD8, 0xA9]"

definition txt_yes :: jstring where
  "txt_yes = [0xD9, 0x2020, 0xD8, 0xB9, 0xD9, 0x2026]"

definition txt_no :: jstring where
  "txt_no = [0xD9, 0x201E, 0xD8, 0xA7]"

definition txt_analysis_error :: jstring where
  "txt_analysis_error = [0xD9, 0xD8, 0xB4, 0xD9, 0x201E, 0x20, 0xD9, 0xD9, 0x160, 0x20,
     0xD8, 0xAA, 0xD8, 0xAD, 0xD9, 0x201E, 0xD9, 0x160, 0xD9, 0x201E, 0x20, 0xD8, 0xA7,
     0xD9, 0x201E, 0xD9, 0x2026, 0xD8, 0xB3, 0xD8, 0xAA, 0xD9, 0x2C6, 0xD8, 0xAF, 0xD8,
     0xB9, 0x2E, 0x20, 0xD8, 0xAD, 0xD8, 0xAF, 0xD8, 0xAB, 0x20, 0xD8, 0xAE, 0xD8, 0xB7,
     0xD8, 0xA3, 0x20, 0xD8, 0xAF, 0xD8, 0xA7, 0xD8, 0xAE, 0xD9, 0x201E, 0xD9, 0x160, 0x2E]"

text \<open>
  The fixed text of the template between its substitutions is the parameter \<open>seg\<close>.
  Every field is read from \<open>data = analysisData || {}\<close>.
\<close>

definition buildAnalysisPrompt ::
  "(rat \<Rightarrow> jstring) \<Rightarrow> (nat \<Rightarrow> jstring) \<Rightarrow> jv \<Rightarrow> jv \<Rightarrow> jv \<Rightarrow> js_error + jstring" where
  "buildAnalysisPrompt ns seg owner' repo' analysisData =
     (let data = js_or analysisData (JObj []) in
      and_then (to_string ns owner') (\<lambda>owner_text.
      and_then (to_string ns repo') (\<lambda>repo_text.
      and_then (get_prop data (asc ''languages'')) (\<lambda>languages.
      and_then (js_join ns (js_or languages (JArr [])) (asc '', '')) (\<lambda>joined.
      and_then (get_prop data (asc ''hasPackageJson'')) (\<lambda>hasPackageJson.
      and_then (get_prop data (asc ''hasDockerfile'')) (\<lambda>hasDockerfile.
      and_then (get_prop data (asc ''hasTests'')) (\<lambda>hasTests.
      and_then (get_prop data (asc ''hasCI'')) (\<lambda>hasCI.
        Inr (seg 0 @ owner_text @ seg 1 @ repo_text @ seg 2
             @ or_text joined txt_unspecified_000 @ seg 3
             @ (if truthy hasPackageJson then txt_yes else txt_no) @ seg 4
             @ (if truthy hasDockerfile then txt_yes else txt_no) @ seg 5
             @ (if truthy hasTests then txt_yes else txt_no) @ seg 6
             @ (if truthy hasCI then txt_yes else txt_no) @ seg 7))))))))))"

subsection \<open>buildAnalysisPrompt, the long template (unnamed/part_001)\<close>

definition txt_unspecified :: jstring where
  "txt_unspecified = [0x63A, 0x64A, 0x631, 0x20, 0x645, 0x62D, 0x62F, 0x62F, 0x629]"

definition txt_present :: jstring where
  "txt_present = [0x2713, 0x20, 0x645, 0x648, 0x62C, 0x648, 0x62F]"

definition txt_absent :: jstring where
  "txt_absent = [0x2717, 0x20, 0x63A, 0x64A, 0x631, 0x20, 0x645, 0x648, 0x62C, 0x648,
     0x62F]"

definition txt_present_f :: jstring where
  "txt_present_f = [0x2713, 0x20, 0x645, 0x648, 0x62C, 0x648, 0x62F, 0x629]"

definition txt_absent_f :: jstring where
  "txt_absent_f = [0x2717, 0x20, 0x63A, 0x64A, 0x631, 0x20, 0x645, 0x648, 0x62C, 0x648,
     0x62F, 0x629]"

text \<open>
  \<open>${c ? `...${c.substring(0, limit)}...` : ''}\<close>: only a string has \<open>substring\<close>.
  \<open>blk k\<close> and \<open>blk (k + 1)\<close> are the fixed text of the inner template.
\<close>

definition content_block :: "(nat \<Rightarrow> jstring) \<Rightarrow> nat \<Rightarrow> nat \<Rightarrow> jv \<Rightarrow> js_error + jstring" where
  "content_block blk k limit content =
     (if truthy content then
        (case content of
           JStr t \<Rightarrow> Inr (blk k @ take limit t @ blk (k + 1))
         | _ \<Rightarrow> Inl TypeError)
      else Inr [])"

text \<open>
  This version computes \<open>data = analysisData || {}\<close> as well, and then reads every field
  from \<open>analysisData\<close> itself.
\<close>

definition buildAnalysisPrompt_long ::
  "(rat \<Rightarrow> jstring) \<Rightarrow> (nat \<Rightarrow> jstring) \<Rightarrow> (nat \<Rightarrow> jstring) \<Rightarrow> jv \<Rightarrow> jv \<Rightarrow> jv
     \<Rightarrow> js_error + jstring" where
  "buildAnalysisPrompt_long ns seg blk owner' repo' analysisData =
     (let data = js_or analysisData (JObj []) in
      and_then (to_string ns owner') (\<lambda>owner_text.
      and_then (to_string ns repo') (\<lambda>repo_text.
      and_then (get_prop analysisData (asc ''languages'')) (\<lambda>languages.
      and_then (js_join ns languages (asc '', '')) (\<lambda>joined.
      and_then (get_prop analysisData (asc ''hasPackageJson'')) (\<lambda>hasPackageJson.
      and_then (get_prop analysisData (asc ''hasRequirementsTxt'')) (\<lambda>hasRequirementsTxt.
      and_then (get_prop analysisData (asc ''hasPyprojectToml'')) (\<lambda>hasPyprojectToml.
      and_then (get_prop analysisData (asc ''hasDockerfile'')) (\<lambda>hasDockerfile.
      and_then (get_prop analysisData (asc ''hasTests'')) (\<lambda>hasTests.
      and_then (get_prop analysisData (asc ''hasCI'')) (\<lambda>hasCI.
      and_then (get_prop analysisData (asc ''hasReadme'')) (\<lambda>hasReadme.
      and_then (get_prop analysisData (asc ''hasGitignore'')) (\<lambda>hasGitignore.
      and_then (get_prop analysisData (asc ''fileStructure'')) (\<lambda>fileStructure.
      and_then (js_join ns fileStructure [0x0A]) (\<lambda>files.
      and_then (get_prop analysisData (asc ''packageJsonContent'')) (\<lambda>packageJsonContent.
      and_then (content_block blk 0 2000 packageJsonContent) (\<lambda>package_block.
      and_then (get_prop analysisData (asc ''readmeContent'')) (\<lambda>readmeContent.
      and_then (content_block blk 2 2000 readmeContent) (\<lambda>readme_block.
      and_then (get_prop analysisData (asc ''requirementsContent'')) (\<lambda>requirementsContent.
      and_then (content_block blk 4 1000 requirementsContent) (\<lambda>requirements_block.
        Inr (seg 0 @ owner_text @ seg 1 @ repo_text @ seg 2
             @ or_text joined txt_unspecified @ seg 3
             @ (if truthy hasPackageJson then txt_present else txt_absent) @ seg 4
             @ (if truthy hasRequirementsTxt then txt_present else txt_absent) @ seg 5
             @ (if truthy hasPyprojectToml then txt_present else txt_absent) @ seg 6
             @ (if truthy hasDockerfile then txt_present else txt_absent) @ seg 7
             @ (if truthy hasTests then txt_present_f else txt_absent_f) @ seg 8
             @ (if truthy hasCI then txt_present else txt_absent) @ seg 9
             @ (if truthy hasReadme then txt_present else txt_absent) @ seg 10
             @ (if truthy hasGitignore then txt_present else txt_absent) @ seg 11
             @ files @ seg 12 @ package_block @ seg 13 @ readme_block @ seg 14
             @ requirements_block @ seg 15 @ owner_text @ seg 16 @ repo_text
             @ seg 17))))))))))))))))))))))"

subsection \<open>POST /api/analyze (unnamed/part_000)\<close>

text \<open>
  The \<open>catch\<close> block: always status 500; the type is \<open>AI_SERVICE_ERROR\<close> when the
  message contains \<open>Google\<close>, \<open>400\<close> or \<open>404\<close>, and \<open>INTERNAL_ERROR\<close> otherwise.
  \<open>duration\<close> and \<open>timestamp\<close> are the clock readings that go into \<open>meta\<close>.
\<close>

definition analyze_error_reply ::
  "(js_error \<Rightarrow> jstring) \<Rightarrow> int \<Rightarrow> jstring \<Rightarrow> js_error \<Rightarrow> http_reply" where
  "analyze_error_reply emsg duration timestamp e =
     (let errorMessage = or_text (error_message emsg e) (asc ''Unknown error occurred'');
          isGoogleError = (js_includes errorMessage (asc ''Google'')
                           \<or> js_includes errorMessage (asc ''400'')
                           \<or> js_includes errorMessage (asc ''404''))
      in \<lparr> status_code = 500,
           payload =
             JObj [(asc ''error'', JStr txt_analysis_error),
                   (asc ''details'',
                      JObj [(asc ''message'', JStr errorMessage),
                            (asc ''type'',
                               JStr (if isGoogleError then asc ''AI_SERVICE_ERROR''
                                     else asc ''INTERNAL_ERROR''))]),
                   (asc ''meta'',
                      JObj [(asc ''duration'', JStr (dec_int duration @ asc ''ms'')),
                            (asc ''timestamp'', JStr timestamp)])] \<rparr>)"

definition model_name :: jstring where
  "model_name = asc ''models/gemini-3-pro-preview''"

text \<open>
  The part of the \<open>try\<close> block after \<open>await fetch(...)\<close>, given what the fetch resolved
  to (or the error it rejected with).
\<close>

definition analyze_response ::
  "(js_error \<Rightarrow> jstring) \<Rightarrow> (rat \<Rightarrow> jstring) \<Rightarrow> int \<Rightarrow> jstring \<Rightarrow> js_error + http_response
     \<Rightarrow> js_error + http_reply" where
  "analyze_response emsg ns duration timestamp fetched =
     (case fetched of
        Inl e \<Rightarrow> Inl e
      | Inr response \<Rightarrow>
          if \<not> ok response then
            Inl (Error (asc ''Gemini API error: '' @ dec (status response) @ asc '' ''
                        @ stringify_text ns (case json response of
                                               Inl e \<Rightarrow> JObj []
                                             | Inr errorData \<Rightarrow> errorData)))
          else
            (case json response of
               Inl e \<Rightarrow> Inl e
             | Inr data \<Rightarrow>
                 and_then (response_text data) (\<lambda>responseText.
                   if js_not responseText then
                     Inl (Error (asc ''Empty response received from Gemini API''))
                   else
                     (case responseText of
                        JStr t \<Rightarrow>
                          (case JSON_parse (cleanText t) of
                             Inl e \<Rightarrow>
                               Inl (Error (asc ''AI response was not valid JSON: ''
                                           @ error_message emsg e))
                           | Inr reportData \<Rightarrow>
                               Inr \<lparr> status_code = 200,
                                     payload =
                                       JObj [(asc ''success'', JBool True),
                                             (asc ''data'', reportData),
                                             (asc ''meta'',
                                                JObj [(asc ''duration'',
                                                         JStr (dec_int duration @ asc ''ms'')),
                                                      (asc ''timestamp'', JStr timestamp),
                                                      (asc ''model'', JStr model_name)])] \<rparr>)
                      | _ \<Rightarrow> Inl TypeError))))"

text \<open>
  The \<open>try\<close> block. Its second component lists the requests sent upstream (URL and
  the object that is serialized into the body). \<open>fetch\<close> is the environment: what the
  upstream call resolves to. \<open>GENAI_API_KEY\<close> is the module constant
  \<open>process.env.GEMINI_API_KEY || process.env.VITE_GEMINI_API_KEY\<close>.
\<close>

definition analyze_try ::
  "(js_error \<Rightarrow> jstring) \<Rightarrow> (rat \<Rightarrow> jstring) \<Rightarrow> (nat \<Rightarrow> jstring) \<Rightarrow> jstring option \<Rightarrow> int \<Rightarrow> jstring
     \<Rightarrow> (jstring \<Rightarrow> jv \<Rightarrow> js_error + http_response) \<Rightarrow> jv
     \<Rightarrow> (js_error + http_reply) \<times> (jstring \<times> jv) list" where
  "analyze_try emsg ns seg GENAI_API_KEY duration timestamp fetch body =
     (case get_prop body (asc ''owner'') of
        Inl e \<Rightarrow> (Inl e, [])
      | Inr owner' \<Rightarrow>
     (case get_prop body (asc ''repo'') of
        Inl e \<Rightarrow> (Inl e, [])
      | Inr repo' \<Rightarrow>
     (case get_prop body (asc ''analysisData'') of
        Inl e \<Rightarrow> (Inl e, [])
      | Inr analysisData \<Rightarrow>
          if js_not owner' \<or> js_not repo' then
            (Inr \<lparr> status_code = 400,
                   payload = JObj [(asc ''error'',
                     JStr (asc ''Missing required fields: owner and repo are required''))] \<rparr>,
             [])
          else
            (case env_or GENAI_API_KEY None of
               None \<Rightarrow>
                 (Inr \<lparr> status_code = 500,
                        payload = JObj [(asc ''error'',
                          JStr (asc (''Configuration error: Analysis service is not available ''
                                     @ ''(KEY_MISSING_RUNTIME_CHECK).'')))] \<rparr>,
                  [])
             | Some key \<Rightarrow>
                 (case buildAnalysisPrompt ns seg owner' repo' analysisData of
                    Inl e \<Rightarrow> (Inl e, [])
                  | Inr prompt \<Rightarrow>
                      (let url' = asc ''https://generativelanguage.googleapis.com/v1beta/''
                                  @ model_name @ asc '':generateContent?key='' @ key;
                           request =
                             JObj [(asc ''contents'',
                                JArr [JObj [(asc ''parts'',
                                   JArr [JObj [(asc ''text'', JStr prompt)]])]])]
                       in (analyze_response emsg ns duration timestamp (fetch url' request),
                           [(url', request)])))))))"

definition post_analyze ::
  "(js_error \<Rightarrow> jstring) \<Rightarrow> (rat \<Rightarrow> jstring) \<Rightarrow> (nat \<Rightarrow> jstring) \<Rightarrow> jstring option \<Rightarrow> int \<Rightarrow> jstring
     \<Rightarrow> (jstring \<Rightarrow> jv \<Rightarrow> js_error + http_response) \<Rightarrow> jv
     \<Rightarrow> http_reply \<times> (jstring \<times> jv) list" where
  "post_analyze emsg ns seg GENAI_API_KEY duration timestamp fetch body =
     (case analyze_try emsg ns seg GENAI_API_KEY duration timestamp fetch body of
        (Inl e, calls) \<Rightarrow> (analyze_error_reply emsg duration timestamp e, calls)
      | (Inr reply, calls) \<Rightarrow> (reply, calls))"

subsection \<open>POST /api/analyze, the server variant with a fallback report\<close>

definition txt_fallback_summary :: jstring where
  "txt_fallback_summary = [0x62A, 0x639, 0x630, 0x631, 0x20, 0x625, 0x643, 0x645, 0x627,
     0x644, 0x20, 0x627, 0x644, 0x62A, 0x62D, 0x644, 0x64A, 0x644, 0x20, 0x627, 0x644,
     0x630, 0x643, 0x64A, 0x2E]"

definition txt_fallback_conclusion :: jstring where
  "txt_fallback_conclusion = [0x62D, 0x62F, 0x62B, 0x20, 0x62E, 0x637, 0x623, 0x20, 0x623,
     0x62B, 0x646, 0x627, 0x621, 0x20, 0x627, 0x644, 0x627, 0x62A, 0x635, 0x627, 0x644,
     0x20, 0x628, 0x62E, 0x62F, 0x645, 0x629, 0x20, 0x627, 0x644, 0x62A, 0x62D, 0x644,
     0x64A, 0x644, 0x2E]"

definition getApiKey :: "jstring option \<Rightarrow> js_error + jstring" where
  "getApiKey apiKey =
     (case env_or apiKey None of
        None \<Rightarrow>
          Inl (Error (asc ''MISSING_API_KEY: Gemini API Key is not configured in .env''))
      | Some key \<Rightarrow> Inr key)"

text \<open>
  \<open>createSafePrompt\<close>. \<open>pretty\<close> is \<open>JSON.stringify(data, null, 2)\<close>, which is
  \<open>undefined\<close> for \<open>undefined\<close> data, so that reading its \<open>length\<close> throws.
\<close>

definition createSafePrompt ::
  "(rat \<Rightarrow> jstring) \<Rightarrow> (jv \<Rightarrow> jstring option) \<Rightarrow> (nat \<Rightarrow> jstring) \<Rightarrow> jv \<Rightarrow> jv \<Rightarrow> jv
     \<Rightarrow> js_error + jstring" where
  "createSafePrompt ns pretty vseg owner' repo' data =
     (case pretty data of
        None \<Rightarrow> Inl TypeError
      | Some dataString \<Rightarrow>
          and_then (to_string ns owner') (\<lambda>owner_text.
          and_then (to_string ns repo') (\<lambda>repo_text.
            Inr (vseg 0 @ owner_text @ vseg 1 @ repo_text @ vseg 2
                 @ (if 30000 < length dataString
                    then take 30000 dataString @ [0x0A] @ asc ''... [TRUNCATED]''
                    else dataString)
                 @ vseg 3))))"

definition callGeminiAPI ::
  "(rat \<Rightarrow> jstring) \<Rightarrow> jstring option \<Rightarrow> (jstring \<Rightarrow> jv \<Rightarrow> js_error + http_response) \<Rightarrow> jstring
     \<Rightarrow> (js_error + jv) \<times> (jstring \<times> jv) list" where
  "callGeminiAPI ns apiKey fetch prompt =
     (case getApiKey apiKey of
        Inl e \<Rightarrow> (Inl e, [])
      | Inr key \<Rightarrow>
          (let url' = asc ''https://generativelanguage.googleapis.com/v1beta/models/''
                      @ asc ''gemini-3-pro-preview'' @ asc '':generateContent?key='' @ key;
               request =
                 JObj [(asc ''contents'',
                    JArr [JObj [(asc ''parts'', JArr [JObj [(asc ''text'', JStr prompt)]])]])]
           in ((case fetch url' request of
                  Inl e \<Rightarrow> Inl e
                | Inr response \<Rightarrow>
                    if \<not> ok response then
                      (case json response of
                         Inl e \<Rightarrow> Inl e
                       | Inr errorData \<Rightarrow>
                           Inl (Error (asc ''Gemini API Error: '' @ dec (status response)
                                       @ asc '' - '' @ stringify_text ns errorData)))
                    else
                      (case json response of
                         Inl e \<Rightarrow> Inl e
                       | Inr data \<Rightarrow>
                           and_then (response_text data) (\<lambda>t. Inr (js_or t (JStr []))))),
               [(url', request)])))"

text \<open>
  \<open>text.match(/\{[\s\S]*\}/)\<close>: from the first opening brace to the last closing
  brace after it, if there is one.
\<close>

definition brace_match :: "jstring \<Rightarrow> jstring option" where
  "brace_match t =
     (let u = dropWhile (\<lambda>c. c \<noteq> 0x7B) t
      in if 0x7D \<in> set u then Some (rev (dropWhile (\<lambda>c. c \<noteq> 0x7D) (rev u))) else None)"

definition fallback_reply :: "(js_error \<Rightarrow> jstring) \<Rightarrow> js_error \<Rightarrow> http_reply" where
  "fallback_reply emsg e =
     \<lparr> status_code = 200,
       payload =
         JObj [(asc ''success'', JBool True),
               (asc ''data'',
                  JObj [(asc ''summary'', JStr txt_fallback_summary),
                        (asc ''overallStatus'', JStr (asc ''needs_work'')),
                        (asc ''domains'',
                           JArr [JObj [(asc ''title'', JStr (asc ''System Analysis'')),
                                       (asc ''status'', JStr (asc ''not-ready'')),
                                       (asc ''description'',
                                          JStr (asc ''Error: '' @ error_message emsg e)),
                                       (asc ''findings'',
                                          JArr [JStr (asc ''Error: '' @ error_message emsg e)]),
                                       (asc ''recommendations'',
                                          JArr [JStr (asc ''Check API Quota''),
                                                JStr (asc ''Verify API Key''),
                                                JStr (asc ''Try again later'')])]]),
                        (asc ''criticalIssues'', JArr [JStr (asc ''AI Service Unavailable'')]),
                        (asc ''recommendations'',
                           JArr [JStr (asc ''Ensure GEMINI_API_KEY is set in .env'')]),
                        (asc ''conclusion'', JStr txt_fallback_conclusion)])] \<rparr>"

text \<open>
  The handler of the variant. \<open>Inl\<close>: an exception that escapes the handler (the
  destructuring and the log line stand before its \<open>try\<close>), so that no reply is sent.
  \<open>apiKey\<close> is \<open>process.env.VITE_GEMINI_API_KEY || process.env.GEMINI_API_KEY\<close>.
\<close>

definition post_analyze_variant ::
  "(js_error \<Rightarrow> jstring) \<Rightarrow> (rat \<Rightarrow> jstring) \<Rightarrow> (jv \<Rightarrow> jstring option) \<Rightarrow> (nat \<Rightarrow> jstring)
     \<Rightarrow> jstring option \<Rightarrow> (jstring \<Rightarrow> jv \<Rightarrow> js_error + http_response) \<Rightarrow> jv
     \<Rightarrow> (js_error + http_reply) \<times> (jstring \<times> jv) list" where
  "post_analyze_variant emsg ns pretty vseg apiKey fetch body =
     (case get_prop body (asc ''owner'') of
        Inl e \<Rightarrow> (Inl e, [])
      | Inr owner' \<Rightarrow>
     (case get_prop body (asc ''repo'') of
        Inl e \<Rightarrow> (Inl e, [])
      | Inr repo' \<Rightarrow>
     (case get_prop body (asc ''analysisData'') of
        Inl e \<Rightarrow> (Inl e, [])
      | Inr analysisData \<Rightarrow>
     (case to_string ns owner' of
        Inl e \<Rightarrow> (Inl e, [])
      | Inr _ \<Rightarrow>
     (case to_string ns repo' of
        Inl e \<Rightarrow> (Inl e, [])
      | Inr _ \<Rightarrow>
          if js_not owner' \<or> js_not repo' then
            (Inr \<lparr> status_code = 400,
                   payload = JObj [(asc ''error'', JStr (asc ''Owner and repo are required''))] \<rparr>,
             [])
          else
            (case createSafePrompt ns pretty vseg owner' repo' analysisData of
               Inl e \<Rightarrow> (Inr (fallback_reply emsg e), [])
             | Inr prompt \<Rightarrow>
                 (case callGeminiAPI ns apiKey fetch prompt of
                    (Inl e, calls) \<Rightarrow> (Inr (fallback_reply emsg e), calls)
                  | (Inr responseText, calls) \<Rightarrow>
                      (case (case responseText of
                               JStr t \<Rightarrow>
                                 JSON_parse (case brace_match t of None \<Rightarrow> t | Some m \<Rightarrow> m)
                             | _ \<Rightarrow> Inl TypeError) of
                         Inl e \<Rightarrow>
                           (Inr (fallback_reply emsg
                                   (Error (asc ''Failed to parse AI response as JSON''))),
                            calls)
                       | Inr analysisResult \<Rightarrow>
                           (Inr \<lparr> status_code = 200,
                                  payload = JObj [(asc ''success'', JBool True),
                                                  (asc ''data'', analysisResult)] \<rparr>,
                            calls)))))))))"

section \<open>Values that JSON text carries faithfully\<close>





definition number_end :: "jstring \<Rightarrow> bool" where
  "number_end rest =
     (case rest of
        [] \<Rightarrow> True
      | c # cs \<Rightarrow> \<not> is_digit c \<and> c \<noteq> 0x2E \<and> c \<noteq> 0x65 \<and> c \<noteq> 0x45)"

text \<open>The closed enumeration \<open>ReadinessStatus\<close> of types/report.ts.\<close>

definition is_ReadinessStatus :: "jv \<Rightarrow> bool" where
  "is_ReadinessStatus v =
     (v = JStr (asc ''ready'') \<or> v = JStr (asc ''conditional'') \<or> v = JStr (asc ''not-ready'')
      \<or> v = JStr (asc ''unknown''))"

section \<open>Properties of the analyzer and of the report list\<close>

lemma get_prop_total: "v \<noteq> JUndef \<Longrightarrow> v \<noteq> JNull \<Longrightarrow> \<exists>x. get_prop v k = Inr x"
  by (cases v) simp_all

lemma get_prop_error: "get_prop v k = Inl e \<Longrightarrow> v = JUndef \<or> v = JNull"
  by (cases v) simp_all

lemma build_report_id:
  "build_report ow rp ur an now reportData = Inr report \<Longrightarrow> id' report = asc ''report-'' @ dec now"
  by (auto simp: build_report_def and_then_def split: sum.splits)

lemma fallback_report_id: "id' (fallback_report ow rp ur an now) = asc ''report-'' @ dec now"
  by (simp add: fallback_report_def)

lemma generateProductionReport_id:
  "id' (generateProductionReport ns ow rp ur an now fetched) = asc ''report-'' @ dec now"
  by (auto simp: generateProductionReport_def fallback_report_id build_report_id
           split: sum.splits)

lemma handleDeleteReport_filter:
  "handleDeleteReport reportId (Some rs) = filter (\<lambda>r. id' r \<noteq> reportId) rs"
  by (simp add: handleDeleteReport_def or_empty_def)

lemma filter_one_out:
  "distinct (map f rs) \<Longrightarrow> k \<in> set (map f rs) \<Longrightarrow>
   \<exists>xs r ys. rs = xs @ r # ys \<and> f r = k \<and> filter (\<lambda>r. f r \<noteq> k) rs = xs @ ys"
proof (induction rs)
  case Nil
  then show ?case by simp
next
  case (Cons a rs)
  show ?case
  proof (cases "f a = k")
    case True
    from Cons.prems(1) have "f a \<notin> f ` set rs" by simp
    with True have "\<forall>r \<in> set rs. f r \<noteq> k" by blast
    then have "filter (\<lambda>r. f r \<noteq> k) rs = rs" by simp
    with True have "a # rs = [] @ a # rs \<and> f a = k \<and> filter (\<lambda>r. f r \<noteq> k) (a # rs) = [] @ rs"
      by simp
    then show ?thesis by blast
  next
    case False
    with Cons.prems have "distinct (map f rs)" "k \<in> set (map f rs)" by auto
    from Cons.IH [OF this] obtain xs r ys
      where "rs = xs @ r # ys" "f r = k" "filter (\<lambda>r. f r \<noteq> k) rs = xs @ ys" by blast
    with False have "a # rs = (a # xs) @ r # ys \<and> f r = k
        \<and> filter (\<lambda>r. f r \<noteq> k) (a # rs) = (a # xs) @ ys" by simp
    then show ?thesis by blast
  qed
qed

lemma count_list_filter:
  "count_list (filter P xs) x = (if P x then count_list xs x else 0)"
  by (induction xs) auto

text \<open>
  C10. Every report that \<open>generateProductionReport\<close> returns, on the success path and on
  the fallback path alike, has the id \<open>report-\<close> followed by the decimal digits of the
  reading of \<open>Date.now()\<close>. So two reports built an the same millisecond, for whatever
  repositories and proxy outcomes, have equal ids; \<open>handleAnalyze\<close> puts both in the
  list, whose ids are then not distinct; and after \<open>handleDeleteReport\<close> no entry with
  the deleted id is left, however many there were.
\<close>

theorem report_id_from_clock:
  "id' (generateProductionReport ns ow rp ur an now fetched) = asc ''report-'' @ dec now
   \<and> id' (generateProductionReport ns ow rp ur an now fetched)
       = id' (generateProductionReport ns2 ow2 rp2 ur2 an2 now fetched2)
   \<and> \<not> distinct (map id'
          (handleAnalyze (generateProductionReport ns2 ow2 rp2 ur2 an2 now fetched2)
             (Some (handleAnalyze (generateProductionReport ns ow rp ur an now fetched) cur))))
   \<and> filter (\<lambda>r. id' r = reportId) (handleDeleteReport reportId cur) = []"
  by (simp add: generateProductionReport_id handleAnalyze_def handleDeleteReport_def
        or_empty_def)

text \<open>
  C8, as stated, fails: two stored reports can carry the same id (both were built an
  millisecond 5 here), and deleting by that id removes both entries, not exactly one.
\<close>

theorem delete_exactly_one_counterexample:
  "handleDeleteReport (asc ''report-5'')
     (Some [fallback_report (asc ''a'') (asc ''x'') [] [] 5,
            fallback_report (asc ''b'') (asc ''y'') [] [] 5]) = []
   \<and> fallback_report (asc ''a'') (asc ''x'') [] [] 5
       \<noteq> fallback_report (asc ''b'') (asc ''y'') [] [] 5"
  by (simp add: handleDeleteReport_def or_empty_def fallback_report_def asc_def dec.simps)

text \<open>
  C8, amended. For every stored report list and every id present in it, deleting by that id
  removes the entries that carry the id and no other: the result is a subsequence of the
  list (the order of what remains is unchanged), it is shorter, every report with another id
  occurs in it as often as before and no report with the deleted id occurs in it. When the
  ids of the list are pairwise distinct, exactly one entry is removed.
\<close>

theorem delete_removes_entries_with_id:
  assumes "reportId \<in> set (map id' rs)"
  shows "subseq (handleDeleteReport reportId (Some rs)) rs
         \<and> length (handleDeleteReport reportId (Some rs)) < length rs
         \<and> (\<forall>r. count_list (handleDeleteReport reportId (Some rs)) r
                  = (if id' r = reportId then 0 else count_list rs r))
         \<and> (distinct (map id' rs) \<longrightarrow>
              (\<exists>xs r ys. rs = xs @ r # ys \<and> id' r = reportId
                 \<and> handleDeleteReport reportId (Some rs) = xs @ ys))"
proof -
  let ?D = "handleDeleteReport reportId (Some rs)"
  have D: "?D = filter (\<lambda>r. id' r \<noteq> reportId) rs"
    by (rule handleDeleteReport_filter)
  have 1: "subseq ?D rs" unfolding D by simp
  from assms obtain r where "r \<in> set rs" "\<not> id' r \<noteq> reportId" by auto
  then have 2: "length ?D < length rs" unfolding D by (rule length_filter_less)
  have 3: "\<forall>r. count_list ?D r = (if id' r = reportId then 0 else count_list rs r)"
    unfolding D by (simp add: count_list_filter)
  have 4: "distinct (map id' rs) \<longrightarrow>
      (\<exists>xs r ys. rs = xs @ r # ys \<and> id' r = reportId \<and> ?D = xs @ ys)"
    unfolding D using assms filter_one_out [of id' rs reportId] by blast
  from 1 2 3 4 show ?thesis by blast
qed

theorem delete_removes_entries_with_id_witness:
  "asc ''report-5'' \<in> set (map id' [fallback_report (asc ''a'') (asc ''x'') [] [] 5,
                                     fallback_report (asc ''b'') (asc ''y'') [] [] 7])
   \<and> distinct (map id' [fallback_report (asc ''a'') (asc ''x'') [] [] 5,
                        fallback_report (asc ''b'') (asc ''y'') [] [] 7])
   \<and> handleDeleteReport (asc ''report-5'')
        (Some [fallback_report (asc ''a'') (asc ''x'') [] [] 5,
               fallback_report (asc ''b'') (asc ''y'') [] [] 7])
       = [fallback_report (asc ''b'') (asc ''y'') [] [] 7]
   \<and> subseq (handleDeleteReport (asc ''report-5'')
        (Some [fallback_report (asc ''a'') (asc ''x'') [] [] 5,
               fallback_report (asc ''b'') (asc ''y'') [] [] 7]))
        [fallback_report (asc ''a'') (asc ''x'') [] [] 5,
         fallback_report (asc ''b'') (asc ''y'') [] [] 7]"
proof -
  have ids: "id' (fallback_report (asc ''a'') (asc ''x'') [] [] 5) = asc ''report-5''"
       "id' (fallback_report (asc ''b'') (asc ''y'') [] [] 7) \<noteq> asc ''report-5''"
    by (simp_all add: fallback_report_def dec.simps asc_def)
  have mem: "asc ''report-5'' \<in> set (map id' [fallback_report (asc ''a'') (asc ''x'') [] [] 5,
                                     fallback_report (asc ''b'') (asc ''y'') [] [] 7])"
    using ids by simp
  from delete_removes_entries_with_id [OF mem] ids mem show ?thesis
    by (simp add: handleDeleteReport_filter)
qed

lemma build_report_fields:
  assumes "get_prop reportData (asc ''overallStatus'') = Inr s"
      and "get_prop reportData (asc ''domains'') = Inr d"
  shows "\<exists>report. build_report ow rp ur an now reportData = Inr report
           \<and> overallStatus report = js_or s (JStr (asc ''unknown''))
           \<and> domains report = js_or d (JArr [])"
proof -
  from assms(1) have nn: "reportData \<noteq> JUndef" "reportData \<noteq> JNull" by auto
  obtain a where a: "get_prop reportData (asc ''summary'') = Inr a"
    using get_prop_total [OF nn] by blast
  obtain b where b: "get_prop reportData (asc ''criticalIssues'') = Inr b"
    using get_prop_total [OF nn] by blast
  obtain c where c: "get_prop reportData (asc ''recommendations'') = Inr c"
    using get_prop_total [OF nn] by blast
  obtain e where e: "get_prop reportData (asc ''conclusion'') = Inr e"
    using get_prop_total [OF nn] by blast
  show ?thesis
    by (simp add: build_report_def and_then_def a b c e assms)
qed

lemma lookup_config_absent:
  "key \<notin> set (map fst configs) \<Longrightarrow> key \<notin> set object_prototype_names \<Longrightarrow>
   lookup_config key = Absent"
  by (simp add: lookup_config_def map_of_eq_None_iff [symmetric])

lemma lookup_config_unknown: "lookup_config (asc ''unknown'') = Own config_unknown"
  by (simp add: lookup_config_def configs_def asc_def)

lemma StatusBadge_absent:
  assumes "to_string ns x = Inr key"
      and "key \<notin> set (map fst configs)" "key \<notin> set object_prototype_names"
  shows "StatusBadge ns x sz = StatusBadge ns (JStr (asc ''unknown'')) sz"
  using assms
  by (simp add: StatusBadge_def and_then_def lookup_config_absent lookup_config_unknown)

lemma labels_outside:
  "\<not> is_ReadinessStatus x \<Longrightarrow> domain_label x = label_unknown \<and> overall_label x = label_not_ready"
  by (simp add: is_ReadinessStatus_def domain_label_def overall_label_def)

text \<open>
  C1, as stated, fails. The proxy answers with \<open>overallStatus: "needs_work"\<close> and a domain
  of status \<open>"bogus"\<close>, both outside the enumeration: the report that
  \<open>generateProductionReport\<close> builds carries both values unchanged, and the export labels
  the overall status \<open>needs_work\<close> as not ready, not as unknown. \<open>StatusBadge\<close> does
  fall back to its \<open>unknown\<close> entry, but not for a status such as \<open>"constructor"\<close>,
  which the table inherits: the badge then has no icon and no label.
\<close>

theorem status_not_mapped_counterexample:
  "overallStatus (generateProductionReport (\<lambda>n. []) (asc ''o'') (asc ''r'') [] [] 0
      (Inr \<lparr> ok = True, status = 200, statusText = asc ''OK'',
             json = Inr (JObj [(asc ''data'',
                      JObj [(asc ''overallStatus'', JStr (asc ''needs_work'')),
                            (asc ''domains'',
                               JArr [JObj [(asc ''status'', JStr (asc ''bogus''))]])])]) \<rparr>))
     = JStr (asc ''needs_work'')
   \<and> JStr (asc ''needs_work'') \<noteq> JStr (asc ''unknown'')
   \<and> domains (generateProductionReport (\<lambda>n. []) (asc ''o'') (asc ''r'') [] [] 0
      (Inr \<lparr> ok = True, status = 200, statusText = asc ''OK'',
             json = Inr (JObj [(asc ''data'',
                      JObj [(asc ''overallStatus'', JStr (asc ''needs_work'')),
                            (asc ''domains'',
                               JArr [JObj [(asc ''status'', JStr (asc ''bogus''))]])])]) \<rparr>))
     = JArr [JObj [(asc ''status'', JStr (asc ''bogus''))]]
   \<and> overall_label (JStr (asc ''needs_work'')) = label_not_ready
   \<and> label_not_ready \<noteq> label_unknown
   \<and> StatusBadge (\<lambda>n. []) (JStr (asc ''constructor'')) Sm
       = Inr \<lparr> badge_class = asc ''undefined text-xs px-2 py-0.5 gap-1.5 font-semibold'',
               badge_icon = None, icon_size = 14, badge_label = None \<rparr>"
  by code_simp

text \<open>
  C1, amended. When the proxy call returns a report JSON, the report built from it has
  \<open>overallStatus\<close> equal to the upstream value whenever that value is truthy, inside the
  enumeration or not, and equal to \<open>unknown\<close> only when the upstream value is missing or
  falsy; \<open>domains\<close> is the upstream value itself when truthy (so no domain status is
  rewritten) and the empty array otherwise. The mapping to \<open>unknown\<close> is done where a
  status is shown. \<open>StatusBadge\<close> renders the \<open>unknown\<close> badge for every status whose
  property key (the status converted to a string) is neither one of the four names of its
  table nor a name that \<open>Object.prototype\<close> defines. The export labels every domain status
  outside the enumeration as unknown; it labels every overall status outside the
  enumeration, and \<open>unknown\<close> itself, as not ready.
\<close>

theorem status_stored_and_rendered:
  assumes "callProxyAnalysis ns fetched = Inr reportData"
      and "get_prop reportData (asc ''overallStatus'') = Inr s"
      and "get_prop reportData (asc ''domains'') = Inr d"
  shows "overallStatus (generateProductionReport ns ow rp ur an now fetched)
           = (if truthy s then s else JStr (asc ''unknown''))
         \<and> domains (generateProductionReport ns ow rp ur an now fetched)
           = (if truthy d then d else JArr [])
         \<and> (\<forall>x key sz. to_string ns x = Inr key \<longrightarrow> key \<notin> set (map fst configs) \<longrightarrow>
               key \<notin> set object_prototype_names \<longrightarrow>
               StatusBadge ns x sz = StatusBadge ns (JStr (asc ''unknown'')) sz)
         \<and> (\<forall>x. \<not> is_ReadinessStatus x \<longrightarrow>
               domain_label x = label_unknown \<and> overall_label x = label_not_ready)
         \<and> overall_label (JStr (asc ''unknown'')) = label_not_ready"
proof -
  from build_report_fields [OF assms(2,3)] obtain report
    where "build_report ow rp ur an now reportData = Inr report"
      "overallStatus report = js_or s (JStr (asc ''unknown''))"
      "domains report = js_or d (JArr [])" by blast
  then have 1: "overallStatus (generateProductionReport ns ow rp ur an now fetched)
                  = (if truthy s then s else JStr (asc ''unknown''))"
    and 2: "domains (generateProductionReport ns ow rp ur an now fetched)
              = (if truthy d then d else JArr [])"
    by (simp_all add: generateProductionReport_def assms(1) js_or_def)
  have 3: "overall_label (JStr (asc ''unknown'')) = label_not_ready"
    by (simp add: overall_label_def asc_def)
  from 1 2 3 StatusBadge_absent labels_outside show ?thesis by blast
qed

theorem status_stored_and_rendered_witness:
  "callProxyAnalysis (\<lambda>n. [])
      (Inr \<lparr> ok = True, status = 200, statusText = asc ''OK'',
             json = Inr (JObj [(asc ''data'',
                      JObj [(asc ''overallStatus'', JStr (asc ''needs_work''))])]) \<rparr>)
     = Inr (JObj [(asc ''overallStatus'', JStr (asc ''needs_work''))])
   \<and> get_prop (JObj [(asc ''overallStatus'', JStr (asc ''needs_work''))])
         (asc ''overallStatus'') = Inr (JStr (asc ''needs_work''))
   \<and> get_prop (JObj [(asc ''overallStatus'', JStr (asc ''needs_work''))]) (asc ''domains'')
       = Inr JUndef
   \<and> to_string (\<lambda>n. []) (JStr (asc ''needs_work'')) = Inr (asc ''needs_work'')
   \<and> asc ''needs_work'' \<notin> set (map fst configs)
   \<and> asc ''needs_work'' \<notin> set object_prototype_names
   \<and> \<not> is_ReadinessStatus (JStr (asc ''needs_work''))
   \<and> overallStatus (generateProductionReport (\<lambda>n. []) (asc ''o'') (asc ''r'') [] [] 0
        (Inr \<lparr> ok = True, status = 200, statusText = asc ''OK'',
               json = Inr (JObj [(asc ''data'',
                        JObj [(asc ''overallStatus'', JStr (asc ''needs_work''))])]) \<rparr>))
       = JStr (asc ''needs_work'')
   \<and> domains (generateProductionReport (\<lambda>n. []) (asc ''o'') (asc ''r'') [] [] 0
        (Inr \<lparr> ok = True, status = 200, statusText = asc ''OK'',
               json = Inr (JObj [(asc ''data'',
                        JObj [(asc ''overallStatus'', JStr (asc ''needs_work''))])]) \<rparr>))
       = JArr []
   \<and> StatusBadge (\<lambda>n. []) (JStr (asc ''needs_work'')) Lg
       = StatusBadge (\<lambda>n. []) (JStr (asc ''unknown'')) Lg
   \<and> domain_label (JStr (asc ''needs_work'')) = label_unknown
   \<and> overall_label (JStr (asc ''needs_work'')) = label_not_ready"
proof -
  have a: "callProxyAnalysis (\<lambda>n. [])
      (Inr \<lparr> ok = True, status = 200, statusText = asc ''OK'',
             json = Inr (JObj [(asc ''data'',
                      JObj [(asc ''overallStatus'', JStr (asc ''needs_work''))])]) \<rparr>)
     = Inr (JObj [(asc ''overallStatus'', JStr (asc ''needs_work''))])"
    by (simp add: callProxyAnalysis_def asc_def)
  have b: "get_prop (JObj [(asc ''overallStatus'', JStr (asc ''needs_work''))])
             (asc ''overallStatus'') = Inr (JStr (asc ''needs_work''))"
    by simp
  have c: "get_prop (JObj [(asc ''overallStatus'', JStr (asc ''needs_work''))])
             (asc ''domains'') = Inr JUndef"
    by (simp add: asc_def)
  have d: "truthy (JStr (asc ''needs_work''))" by (simp add: asc_def)
  have e: "to_string (\<lambda>n. []) (JStr (asc ''needs_work'')) = Inr (asc ''needs_work'')"
    by simp
  have f: "asc ''needs_work'' \<notin> set (map fst configs)"
    by (simp add: configs_def asc_def)
  have g: "asc ''needs_work'' \<notin> set object_prototype_names"
    by (simp add: object_prototype_names_def asc_def)
  have h: "\<not> is_ReadinessStatus (JStr (asc ''needs_work''))"
    by (simp add: is_ReadinessStatus_def asc_def)
  from status_stored_and_rendered [OF a b c, of "asc ''o''" "asc ''r''" "[]" "[]" 0]
    a b c d e f g h
  show ?thesis by simp
qed

section \<open>Properties of the proxy server\<close>

lemma get_prop_same:
  "get_prop body k = Inr v \<Longrightarrow> \<exists>w. get_prop body k' = Inr w"
  by (cases body) simp_all

text \<open>
  C2. The handler of unnamed/part_000 at a request whose upstream call answers 429 with
  the JSON error body of a quota failure: the reply has status 500 and
  \<open>details.message\<close> holds the upstream error as JSON text, but \<open>details.type\<close> is
  \<open>INTERNAL_ERROR\<close>: the message \<open>Gemini API error: 429 ...\<close> that the handler itself
  builds contains none of \<open>Google\<close>, \<open>400\<close>, \<open>404\<close>.
\<close>

theorem upstream_429_reply:
  "fst (post_analyze (\<lambda>e. []) (\<lambda>q. []) (\<lambda>k. []) (Some (asc ''k'')) 5 (asc ''t'')
          (\<lambda>u r. Inr \<lparr> ok = False, status = 429, statusText = asc ''Too Many Requests'',
             json = Inr (JObj [(asc ''error'',
                      JObj [(asc ''message'',
                               JStr (asc ''Resource has been exhausted (e.g. check quota).'')),
                            (asc ''status'', JStr (asc ''RESOURCE_EXHAUSTED''))])]) \<rparr>)
          (JObj [(asc ''owner'', JStr (asc ''test'')), (asc ''repo'', JStr (asc ''repo''))]))
   = \<lparr> status_code = 500,
       payload =
         JObj [(asc ''error'', JStr txt_analysis_error),
               (asc ''details'',
                  JObj [(asc ''message'',
                           JStr (asc ''Gemini API error: 429 {'' @ [0x22] @ asc ''error'' @ [0x22]
                                 @ asc '':{'' @ [0x22] @ asc ''message'' @ [0x22] @ asc '':''
                                 @ [0x22]
                                 @ asc ''Resource has been exhausted (e.g. check quota).''
                                 @ [0x22] @ asc '','' @ [0x22] @ asc ''status'' @ [0x22]
                                 @ asc '':'' @ [0x22] @ asc ''RESOURCE_EXHAUSTED'' @ [0x22]
                                 @ asc ''}}'')),
                        (asc ''type'', JStr (asc ''INTERNAL_ERROR''))]),
               (asc ''meta'',
                  JObj [(asc ''duration'', JStr (asc ''5ms'')),
                        (asc ''timestamp'', JStr (asc ''t''))])] \<rparr>"
  by code_simp

text \<open>
  C3, as stated, fails on the server variant with the fallback report: with no API key and
  the body \<open>{owner: "test", repo: "repo", analysisData: {}}\<close> it answers with status 200
  and the fallback report built from the MISSING_API_KEY error, whatever the upstream
  service would do. (\<open>JSON.stringify({}, null, 2)\<close> is \<open>{}\<close>, as without indentation.)
\<close>

theorem missing_key_variant_counterexample:
  "\<forall>emsg ns vseg fetch.
     fst (post_analyze_variant emsg ns (stringify ns) vseg None fetch
            (JObj [(asc ''owner'', JStr (asc ''test'')), (asc ''repo'', JStr (asc ''repo'')),
                   (asc ''analysisData'', JObj [])]))
       = Inr (fallback_reply emsg
                (Error (asc ''MISSING_API_KEY: Gemini API Key is not configured in .env'')))
     \<and> status_code (fallback_reply emsg
                (Error (asc ''MISSING_API_KEY: Gemini API Key is not configured in .env'')))
       = 200"
  by (simp add: post_analyze_variant_def createSafePrompt_def and_then_def callGeminiAPI_def
        getApiKey_def env_or_def fallback_reply_def asc_def)

text \<open>
  C3, amended. For every request body whose owner and repo are non-empty strings, when
  the API key is absent (unset or empty): the handler of unnamed/part_000 replies with
  status 500 and the body \<open>{error: 'Configuration error: ...'}\<close>, a constant that holds
  no key, and sends no request upstream; the server variant sends no request upstream
  either, and replies with status 200 and its fallback report.
\<close>

theorem missing_key_replies:
  assumes ow: "get_prop body (asc ''owner'') = Inr (JStr ow)" "ow \<noteq> []"
      and rp: "get_prop body (asc ''repo'') = Inr (JStr rp)" "rp \<noteq> []"
      and key: "env_or apiKey None = None"
  shows "post_analyze emsg ns seg apiKey duration timestamp fetch body
           = (\<lparr> status_code = 500,
                payload = JObj [(asc ''error'',
                  JStr (asc (''Configuration error: Analysis service is not available ''
                             @ ''(KEY_MISSING_RUNTIME_CHECK).'')))] \<rparr>, [])
         \<and> (\<exists>e. post_analyze_variant emsg ns pretty vseg apiKey fetch body
                    = (Inr (fallback_reply emsg e), [])
                  \<and> status_code (fallback_reply emsg e) = 200)"
proof -
  obtain ad where ad: "get_prop body (asc ''analysisData'') = Inr ad"
    using get_prop_same [OF ow(1)] by blast
  have 1: "post_analyze emsg ns seg apiKey duration timestamp fetch body
           = (\<lparr> status_code = 500,
                payload = JObj [(asc ''error'',
                  JStr (asc (''Configuration error: Analysis service is not available ''
                             @ ''(KEY_MISSING_RUNTIME_CHECK).'')))] \<rparr>, [])"
    by (simp add: post_analyze_def analyze_try_def ow rp ad key)
  have st: "status_code (fallback_reply emsg e) = 200" for e
    by (simp add: fallback_reply_def)
  have 2: "\<exists>e. post_analyze_variant emsg ns pretty vseg apiKey fetch body
                    = (Inr (fallback_reply emsg e), [])"
  proof (cases "pretty ad")
    case None
    then have "createSafePrompt ns pretty vseg (JStr ow) (JStr rp) ad = Inl TypeError"
      by (simp add: createSafePrompt_def)
    then show ?thesis
      by (intro exI [of _ TypeError]) (simp add: post_analyze_variant_def ow rp ad)
  next
    case (Some t)
    then obtain prompt
      where "createSafePrompt ns pretty vseg (JStr ow) (JStr rp) ad = Inr prompt"
      by (simp add: createSafePrompt_def and_then_def)
    then show ?thesis
      by (intro exI [of _ "Error (asc ''MISSING_API_KEY: Gemini API Key is not configured in .env'')"])
         (simp add: post_analyze_variant_def ow rp ad callGeminiAPI_def getApiKey_def key)
  qed
  from 1 2 st show ?thesis by blast
qed

theorem missing_key_replies_witness:
  "get_prop (JObj [(asc ''owner'', JStr (asc ''test'')), (asc ''repo'', JStr (asc ''repo''))])
     (asc ''owner'') = Inr (JStr (asc ''test''))
   \<and> asc ''test'' \<noteq> []
   \<and> get_prop (JObj [(asc ''owner'', JStr (asc ''test'')), (asc ''repo'', JStr (asc ''repo''))])
       (asc ''repo'') = Inr (JStr (asc ''repo''))
   \<and> asc ''repo'' \<noteq> []
   \<and> env_or None None = None
   \<and> status_code (fst (post_analyze (\<lambda>e. []) (\<lambda>q. []) (\<lambda>k. []) None 3 (asc ''t'')
         (\<lambda>u r. Inl TypeError)
         (JObj [(asc ''owner'', JStr (asc ''test'')), (asc ''repo'', JStr (asc ''repo''))])))
       = 500
   \<and> snd (post_analyze (\<lambda>e. []) (\<lambda>q. []) (\<lambda>k. []) None 3 (asc ''t'')
         (\<lambda>u r. Inl TypeError)
         (JObj [(asc ''owner'', JStr (asc ''test'')), (asc ''repo'', JStr (asc ''repo''))]))
       = []"
proof -
  have a: "get_prop (JObj [(asc ''owner'', JStr (asc ''test'')),
                           (asc ''repo'', JStr (asc ''repo''))])
             (asc ''owner'') = Inr (JStr (asc ''test''))" by simp
  have b: "asc ''test'' \<noteq> []" by (simp add: asc_def)
  have c: "get_prop (JObj [(asc ''owner'', JStr (asc ''test'')),
                           (asc ''repo'', JStr (asc ''repo''))])
             (asc ''repo'') = Inr (JStr (asc ''repo''))" by (simp add: asc_def)
  have d: "asc ''repo'' \<noteq> []" by (simp add: asc_def)
  have e: "env_or None None = None" by (simp add: env_or_def)
  from missing_key_replies [OF a b c d e, of "\<lambda>e. []" "\<lambda>q. []" "\<lambda>k. []" 3 "asc ''t''"
      "\<lambda>u r. Inl TypeError"]
    a b c d e show ?thesis by simp
qed

text \<open>
  C4. With \<open>analysisData\<close> absent, the long template of unnamed/part_001 throws a
  TypeError for every owner and repo (it reads \<open>analysisData.languages\<close> although it has
  just computed \<open>data = analysisData || {}\<close>), where the short template of
  unnamed/part_000 returns the prompt with the \<open>not specified\<close> and \<open>no\<close> placeholders.
\<close>

theorem prompt_with_absent_analysis_data:
  "buildAnalysisPrompt_long ns seg blk (JStr ow) (JStr rp) JUndef = Inl TypeError
   \<and> buildAnalysisPrompt ns seg (JStr ow) (JStr rp) JUndef
       = Inr (seg 0 @ ow @ seg 1 @ rp @ seg 2 @ txt_unspecified_000 @ seg 3 @ txt_no @ seg 4
              @ txt_no @ seg 5 @ txt_no @ seg 6 @ txt_no @ seg 7)"
  by (simp add: buildAnalysisPrompt_long_def buildAnalysisPrompt_def and_then_def js_or_def
        js_join_def or_text_def)

section \<open>Properties of the sanitization of the model's text\<close>



lemma remove_json_fences_Nil [simp]: "remove_json_fences [] = []"
  by (simp add: remove_json_fences.simps)















section \<open>Properties of the display side\<close>

lemma build_report_arrays:
  assumes "get_prop reportData (asc ''domains'') = Inr d"
      and "get_prop reportData (asc ''criticalIssues'') = Inr c"
      and "get_prop reportData (asc ''recommendations'') = Inr r"
  shows "\<exists>report. build_report ow rp ur an now reportData = Inr report
           \<and> domains report = js_or d (JArr [])
           \<and> criticalIssues report = js_or c (JArr [])
           \<and> recommendations report = js_or r (JArr [])"
proof -
  from assms(1) have nn: "reportData \<noteq> JUndef" "reportData \<noteq> JNull" by auto
  obtain a where a: "get_prop reportData (asc ''summary'') = Inr a"
    using get_prop_total [OF nn] by blast
  obtain b where b: "get_prop reportData (asc ''overallStatus'') = Inr b"
    using get_prop_total [OF nn] by blast
  obtain e where e: "get_prop reportData (asc ''conclusion'') = Inr e"
    using get_prop_total [OF nn] by blast
  show ?thesis
    by (simp add: build_report_def and_then_def a b e assms)
qed

lemma ensureArray_falsy: "\<not> truthy v \<Longrightarrow> ensureArray v = []"
  by (cases v) simp_all

lemma bullet_lines_empty: "bullet_lines ns (JArr []) = Inr []"
  by (simp add: bullet_lines_def)

lemma section_text_empty: "section_text ns sn (JArr []) none = Inr none"
  by (simp add: section_text_def length_positive_def)

lemma render_domains_empty: "render_domains ns sn dseg (JArr []) = Inr txt_no_domains"
  by (simp add: render_domains_def length_positive_def)

text \<open>
  The missing arrays: when \<open>domains\<close>, \<open>criticalIssues\<close> and \<open>recommendations\<close> are
  missing from the report JSON (or falsy), the report has the empty array in these fields
  and \<open>handleExport\<close> prints the three "nothing to show" lines; a domain whose
  \<open>findings\<close> and \<open>recommendations\<close> are missing is printed with both lists empty; and
  \<open>ensureArray\<close> gives the empty list for each of these values.
\<close>

lemma missing_arrays_default:
  assumes rd: "callProxyAnalysis ns fetched = Inr reportData"
      and d: "get_prop reportData (asc ''domains'') = Inr d" "\<not> truthy d"
      and c: "get_prop reportData (asc ''criticalIssues'') = Inr c" "\<not> truthy c"
      and r: "get_prop reportData (asc ''recommendations'') = Inr r" "\<not> truthy r"
      and s: "to_string ns (summary (generateProductionReport ns ow rp ur an now fetched))
                = Inr summary_text"
      and e: "to_string ns (conclusion (generateProductionReport ns ow rp ur an now fetched))
                = Inr conclusion_text"
      and dom: "get_prop domain (asc ''title'') = Inr title" "to_string ns title = Inr title_text"
               "get_prop domain (asc ''status'') = Inr st"
               "get_prop domain (asc ''description'') = Inr description"
               "to_string ns description = Inr description_text"
               "get_prop domain (asc ''findings'') = Inr f" "\<not> truthy f"
               "get_prop domain (asc ''recommendations'') = Inr g" "\<not> truthy g"
  shows "domains (generateProductionReport ns ow rp ur an now fetched) = JArr []
         \<and> criticalIssues (generateProductionReport ns ow rp ur an now fetched) = JArr []
         \<and> recommendations (generateProductionReport ns ow rp ur an now fetched) = JArr []
         \<and> handleExport ns sn fmt seg dseg
              (Some (generateProductionReport ns ow rp ur an now fetched))
             = Inr (Some (seg 0 @ ur @ seg 1 @ ow @ seg 2 @ rp @ seg 3 @ fmt an @ seg 4
                 @ overall_label (overallStatus
                      (generateProductionReport ns ow rp ur an now fetched))
                 @ seg 5 @ summary_text @ seg 6 @ txt_no_domains @ seg 7 @ txt_no_critical
                 @ seg 8 @ txt_no_recommendations @ seg 9 @ conclusion_text @ seg 10))
         \<and> render_domain ns dseg i domain
             = Inr (dseg 0 @ dec (i + 1) @ dseg 1 @ title_text @ dseg 2 @ domain_label st
                    @ dseg 3 @ description_text @ dseg 4 @ [] @ dseg 5 @ [] @ dseg 6)
         \<and> ensureArray d = [] \<and> ensureArray c = [] \<and> ensureArray r = []
         \<and> ensureArray f = [] \<and> ensureArray g = []"
proof -
  let ?R = "generateProductionReport ns ow rp ur an now fetched"
  from build_report_arrays [OF d(1) c(1) r(1)] obtain report
    where rep: "build_report ow rp ur an now reportData = Inr report"
      "domains report = js_or d (JArr [])" "criticalIssues report = js_or c (JArr [])"
      "recommendations report = js_or r (JArr [])" by blast
  have R: "?R = report"
    by (simp add: generateProductionReport_def rd rep(1))
  have rid: "repository report = \<lparr> url = ur, owner = ow, repo = rp, analyzedAt = an \<rparr>"
       "createdAt report = an"
    using rep(1) by (auto simp: build_report_def and_then_def split: sum.splits)
  have 1: "domains ?R = JArr []" "criticalIssues ?R = JArr []" "recommendations ?R = JArr []"
    using rep d(2) c(2) r(2) by (simp_all add: R js_or_def)
  have 2: "handleExport ns sn fmt seg dseg (Some ?R)
             = Inr (Some (seg 0 @ ur @ seg 1 @ ow @ seg 2 @ rp @ seg 3 @ fmt an @ seg 4
                 @ overall_label (overallStatus ?R)
                 @ seg 5 @ summary_text @ seg 6 @ txt_no_domains @ seg 7 @ txt_no_critical
                 @ seg 8 @ txt_no_recommendations @ seg 9 @ conclusion_text @ seg 10))"
    using s e 1 rid
    by (simp add: handleExport_def and_then_def js_or_def render_domains_empty
          section_text_empty R)
  have 3: "render_domain ns dseg i domain
             = Inr (dseg 0 @ dec (i + 1) @ dseg 1 @ title_text @ dseg 2 @ domain_label st
                    @ dseg 3 @ description_text @ dseg 4 @ [] @ dseg 5 @ [] @ dseg 6)"
    using dom by (simp add: render_domain_def and_then_def js_or_def bullet_lines_empty)
  from 1 2 3 d(2) c(2) r(2) dom(7,9) show ?thesis
    by (simp add: ensureArray_falsy)
qed

text \<open>
  C6. The proxy answers with \<open>domains: "none"\<close>, a JSON value that is present but not
  an array. Whatever the repository and the clock, \<open>generateProductionReport\<close> returns a
  report (it never throws) that keeps the string as its \<open>domains\<close>. ReportView shows
  this report through \<open>ensureArray\<close>, which turns the string, like every value, into an
  array. \<open>handleExport\<close> guards the same field with \<open>|| []\<close> only, and throws a
  TypeError on it: a string has a positive length and no \<open>map\<close>.
\<close>

theorem export_of_non_array_domains:
  "domains (generateProductionReport ns ow rp ur an now
      (Inr \<lparr> ok = True, status = 200, statusText = st,
             json = Inr (JObj [(asc ''data'',
                      JObj [(asc ''domains'', JStr (asc ''none''))])]) \<rparr>))
     = JStr (asc ''none'')
   \<and> ensureArray (JStr (asc ''none'')) = [JStr (asc ''none'')]
   \<and> (\<forall>v. ensureArray v
          = (case v of
               JArr xs \<Rightarrow> xs
             | JStr t \<Rightarrow> if t = [] then [] else [JStr t]
             | JObj kvs \<Rightarrow> [JObj kvs]
             | _ \<Rightarrow> []))
   \<and> handleExport ns sn fmt seg dseg
       (Some (generateProductionReport ns ow rp ur an now
          (Inr \<lparr> ok = True, status = 200, statusText = st,
             json = Inr (JObj [(asc ''data'',
                      JObj [(asc ''domains'', JStr (asc ''none''))])]) \<rparr>)))
     = Inl TypeError"
proof -
  let ?R = "generateProductionReport ns ow rp ur an now
      (Inr \<lparr> ok = True, status = 200, statusText = st,
             json = Inr (JObj [(asc ''data'',
                      JObj [(asc ''domains'', JStr (asc ''none''))])]) \<rparr>)"
  have none: "asc ''none'' \<noteq> []" by (simp add: asc_def)
  have R: "domains ?R = JStr (asc ''none'')" "summary ?R = JStr txt_no_summary"
    using none
    by (simp_all add: generateProductionReport_def callProxyAnalysis_def build_report_def
          and_then_def js_or_def asc_def)
  have 1: "render_domains ns sn dseg (JStr (asc ''none'')) = Inl TypeError"
    using none by (simp add: render_domains_def length_positive_def)
  have 2: "handleExport ns sn fmt seg dseg (Some ?R) = Inl TypeError"
    using none by (simp add: handleExport_def R and_then_def js_or_def 1)
  have 3: "ensureArray v
          = (case v of
               JArr xs \<Rightarrow> xs
             | JStr t \<Rightarrow> if t = [] then [] else [JStr t]
             | JObj kvs \<Rightarrow> [JObj kvs]
             | _ \<Rightarrow> [])" for v
    by (cases v) simp_all
  from R(1) 2 3 none show ?thesis by simp
qed

section \<open>Properties of the persistence\<close>

text \<open>
  C9, as stated, fails: a stored text that is not a report list but still parses as JSON
  (here \<open>{}\<close>) is returned as parsed, not replaced by the empty list.
\<close>

theorem stored_object_counterexample:
  "useKV_init \<lparr> items = (\<lambda>k. if k = reports_key then Some (asc ''{}'') else None),
                readable = True, accepts = (\<lambda>k v. True) \<rparr> reports_key (JArr [])
   = JObj []"
  by (simp add: useKV_init_def getItem_def) code_simp

text \<open>
  C9, amended. Loading never raises (\<open>useKV_init\<close> returns a value in every case). It
  resolves to the default, the empty list, when reading the store throws, when nothing is
  stored under the key, when the stored text is empty and when the stored text is not
  JSON. A stored text that parses as JSON is returned as parsed, whatever its shape.
\<close>

theorem stored_value_loading:
  "(getItem st key = Inl e \<longrightarrow> useKV_init st key d = d)
   \<and> (getItem st key = Inr None \<longrightarrow> useKV_init st key d = d)
   \<and> (getItem st key = Inr (Some []) \<longrightarrow> useKV_init st key d = d)
   \<and> (getItem st key = Inr (Some t) \<longrightarrow> JSON_parse t = Inl e' \<longrightarrow> useKV_init st key d = d)
   \<and> (getItem st key = Inr (Some t) \<longrightarrow> t \<noteq> [] \<longrightarrow> JSON_parse t = Inr v
        \<longrightarrow> useKV_init st key d = v)"
  by (simp add: useKV_init_def)

theorem stored_value_loading_witness:
  "getItem \<lparr> items = (\<lambda>k. None), readable = False, accepts = (\<lambda>k v. True) \<rparr> reports_key
     = Inl SecurityError
   \<and> useKV_init \<lparr> items = (\<lambda>k. None), readable = False, accepts = (\<lambda>k v. True) \<rparr>
        reports_key (JArr []) = JArr []
   \<and> getItem \<lparr> items = (\<lambda>k. None), readable = True, accepts = (\<lambda>k v. True) \<rparr> reports_key
       = Inr None
   \<and> useKV_init \<lparr> items = (\<lambda>k. None), readable = True, accepts = (\<lambda>k v. True) \<rparr>
        reports_key (JArr []) = JArr []
   \<and> getItem \<lparr> items = (\<lambda>k. Some []), readable = True, accepts = (\<lambda>k v. True) \<rparr> reports_key
       = Inr (Some [])
   \<and> useKV_init \<lparr> items = (\<lambda>k. Some []), readable = True, accepts = (\<lambda>k v. True) \<rparr>
        reports_key (JArr []) = JArr []
   \<and> getItem \<lparr> items = (\<lambda>k. Some (asc ''[{'')), readable = True, accepts = (\<lambda>k v. True) \<rparr>
        reports_key = Inr (Some (asc ''[{''))
   \<and> JSON_parse (asc ''[{'') = Inl SyntaxError
   \<and> useKV_init \<lparr> items = (\<lambda>k. Some (asc ''[{'')), readable = True, accepts = (\<lambda>k v. True) \<rparr>
        reports_key (JArr []) = JArr []
   \<and> getItem \<lparr> items = (\<lambda>k. Some (asc ''[null]'')), readable = True,
                accepts = (\<lambda>k v. True) \<rparr> reports_key = Inr (Some (asc ''[null]''))
   \<and> asc ''[null]'' \<noteq> []
   \<and> JSON_parse (asc ''[null]'') = Inr (JArr [JNull])
   \<and> useKV_init \<lparr> items = (\<lambda>k. Some (asc ''[null]'')), readable = True,
                   accepts = (\<lambda>k v. True) \<rparr> reports_key (JArr []) = JArr [JNull]"
proof -
  let ?acc = "\<lambda>(k::jstring) (v::jstring). True"
  have a: "getItem \<lparr> items = (\<lambda>k. None), readable = False, accepts = ?acc \<rparr> reports_key
             = Inl SecurityError"
    by (simp add: getItem_def)
  have b: "getItem \<lparr> items = (\<lambda>k. None), readable = True, accepts = ?acc \<rparr> reports_key
             = Inr None"
    by (simp add: getItem_def)
  have c: "getItem \<lparr> items = (\<lambda>k. Some []), readable = True, accepts = ?acc \<rparr> reports_key
             = Inr (Some [])"
    by (simp add: getItem_def)
  have d: "getItem \<lparr> items = (\<lambda>k. Some (asc ''[{'')), readable = True, accepts = ?acc \<rparr>
             reports_key = Inr (Some (asc ''[{''))"
    by (simp add: getItem_def)
  have d': "JSON_parse (asc ''[{'') = Inl SyntaxError" by code_simp
  have e: "getItem \<lparr> items = (\<lambda>k. Some (asc ''[null]'')), readable = True, accepts = ?acc \<rparr>
             reports_key = Inr (Some (asc ''[null]''))"
    by (simp add: getItem_def)
  have e': "asc ''[null]'' \<noteq> []" by (simp add: asc_def)
  have e'': "JSON_parse (asc ''[null]'') = Inr (JArr [JNull])" by code_simp
  from stored_value_loading
         [of "\<lparr> items = (\<lambda>k. None), readable = False, accepts = ?acc \<rparr>" reports_key
             SecurityError "JArr []"]
       stored_value_loading
         [of "\<lparr> items = (\<lambda>k. None), readable = True, accepts = ?acc \<rparr>" reports_key _
             "JArr []"]
       stored_value_loading
         [of "\<lparr> items = (\<lambda>k. Some []), readable = True, accepts = ?acc \<rparr>" reports_key _
             "JArr []"]
       stored_value_loading
         [of "\<lparr> items = (\<lambda>k. Some (asc ''[{'')), readable = True, accepts = ?acc \<rparr>"
             reports_key _ "JArr []" "asc ''[{''" SyntaxError]
       stored_value_loading
         [of "\<lparr> items = (\<lambda>k. Some (asc ''[null]'')), readable = True, accepts = ?acc \<rparr>"
             reports_key _ "JArr []" "asc ''[null]''" _ "JArr [JNull]"]
       a b c d d' e e' e''
  show ?thesis by simp
qed

section \<open>JSON.parse has fuel enough\<close>

text \<open>
  Every successful step of the parser consumes input, and the parser spends at most two
  units of fuel for each nesting level, so that \<open>2 * length s + 1\<close> units are enough for
  any text \<open>s\<close>: the branch \<open>OutOfFuel\<close> of \<open>JSON_parse\<close> is never taken.
\<close>

lemma length_skip_ws: "length (skip_ws s) \<le> length s"
  by (simp add: skip_ws_def length_dropWhile_le)

lemma skip_ws_Cons_length: "skip_ws s = c # cs \<Longrightarrow> length cs < length s"
  using length_skip_ws [of s] by simp

lemma push_unit_Some:
  "push_unit c r = Some (str, rest) \<Longrightarrow> \<exists>t. r = Some (t, rest)"
  by (auto simp: push_unit_def split: option.splits)

lemma parse_escape_cases:
  assumes "parse_escape (e # es) = Some (str, rest)"
  shows "(\<exists>t. parse_string es = Some (t, rest))
         \<or> (\<exists>a b c d r t. es = a # b # c # d # r \<and> parse_string r = Some (t, rest))"
proof (cases "e = 0x75")
  case True
  with assms obtain a b c d r where es: "es = a # b # c # d # r"
    by (auto split: list.splits)
  with True assms obtain w where "push_unit w (parse_string r) = Some (str, rest)"
    by (auto split: option.splits)
  then obtain t where "parse_string r = Some (t, rest)" using push_unit_Some by blast
  with es show ?thesis by blast
next
  case False
  with assms obtain w where "push_unit w (parse_string es) = Some (str, rest)"
    by (auto split: if_splits)
  then show ?thesis using push_unit_Some by blast
qed

lemma parse_string_cases:
  assumes "parse_string (c # cs) = Some (str, rest)"
  shows "rest = cs \<or> (\<exists>t. parse_string cs = Some (t, rest))
         \<or> parse_escape cs = Some (str, rest)"
proof (cases "c = 0x22 \<or> c = 0x5C")
  case True
  with assms show ?thesis by (auto split: if_splits)
next
  case False
  with assms have "push_unit c (parse_string cs) = Some (str, rest)"
    by (auto split: if_splits)
  then show ?thesis using push_unit_Some by blast
qed

lemma parse_string_length:
  "parse_string cs = Some (str, rest) \<Longrightarrow> length rest < length cs"
proof (induction "length cs" arbitrary: cs str rest rule: less_induct)
  case less
  from less.prems obtain c cs' where cs: "cs = c # cs'" by (cases cs) auto
  from parse_string_cases [OF less.prems [unfolded cs]]
  consider "rest = cs'" | t where "parse_string cs' = Some (t, rest)"
    | "parse_escape cs' = Some (str, rest)" by blast
  then show ?case
  proof cases
    case 1
    then show ?thesis by (simp add: cs)
  next
    case 2
    from less.hyps [OF _ this] show ?thesis by (simp add: cs)
  next
    case 3
    then obtain e es where es: "cs' = e # es" by (cases cs') auto
    from parse_escape_cases [OF 3 [unfolded es]]
    consider t where "parse_string es = Some (t, rest)"
      | a b c d r t where "es = a # b # c # d # r" "parse_string r = Some (t, rest)"
      by blast
    then show ?thesis
    proof cases
      case 1
      from less.hyps [OF _ this] show ?thesis by (simp add: cs es)
    next
      case 2
      from less.hyps [OF _ 2(2)] show ?thesis by (simp add: cs es 2(1))
    qed
  qed
qed

lemma parse_fraction_length:
  "parse_fraction s = Some (f, r) \<Longrightarrow> length r \<le> length s"
  using length_dropWhile_le [of is_digit "tl s"]
  by (auto simp: parse_fraction_def Let_def split: list.splits if_splits)

lemma parse_exponent_length:
  "parse_exponent s = Some (x, r) \<Longrightarrow> length r \<le> length s"
proof (cases s)
  case Nil
  assume "parse_exponent s = Some (x, r)"
  with Nil show ?thesis by (simp add: parse_exponent_def)
next
  case (Cons e t)
  assume a: "parse_exponent s = Some (x, r)"
  show ?thesis
  proof (cases "e = 0x65 \<or> e = 0x45")
    case False
    with a Cons show ?thesis by (auto simp: parse_exponent_def)
  next
    case True
    define u where "u = (case t of [] \<Rightarrow> t
       | g # t' \<Rightarrow> if g = 0x2D then t' else if g = 0x2B then t' else t)"
    have u: "length u \<le> length t" by (auto simp: u_def split: list.splits)
    from a Cons True have "r = dropWhile is_digit u"
      by (auto simp: parse_exponent_def Let_def u_def split: list.splits if_splits)
    with u length_dropWhile_le [of is_digit u] show ?thesis by (simp add: Cons)
  qed
qed

lemma dropWhile_shorter:
  "takeWhile P xs \<noteq> [] \<Longrightarrow> length (dropWhile P xs) < length xs"
  by (cases xs) (auto simp: le_imp_less_Suc length_dropWhile_le split: if_splits)

lemma parse_number_length:
  assumes "parse_number s = Some (q, rest)"
  shows "length rest < length s"
proof -
  define s1 where "s1 = (case s of [] \<Rightarrow> s | c # cs \<Rightarrow> if c = 0x2D then cs else s)"
  have s1: "length s1 \<le> length s" by (auto simp: s1_def split: list.splits)
  from assms obtain f s2 x where ip: "takeWhile is_digit s1 \<noteq> []"
    and fr: "parse_fraction (dropWhile is_digit s1) = Some (f, s2)"
    and ex: "parse_exponent s2 = Some (x, rest)"
    by (auto simp: parse_number_def Let_def s1_def
        split: list.splits if_splits option.splits prod.splits)
  from dropWhile_shorter [OF ip] parse_fraction_length [OF fr] parse_exponent_length [OF ex] s1
  show ?thesis by simp
qed


lemma parse_value_Parsed:
  assumes "parse_value (Suc n) s = Parsed v rest"
  shows "\<exists>c cs. skip_ws s = c # cs \<and>
           (length rest < length cs
            \<or> parse_members n [] cs = Parsed v rest
            \<or> parse_elems n [] cs = Parsed v rest
            \<or> length rest < length (c # cs))"
proof -
  from assms obtain c cs where s: "skip_ws s = c # cs" by (cases "skip_ws s") auto
  show ?thesis
  proof (cases "c = 0x7B")
    case True
    with assms s show ?thesis
      by (auto split: list.splits if_splits dest: skip_ws_Cons_length)
  next
    case n1: False
    show ?thesis
    proof (cases "c = 0x5B")
      case True
      with assms s n1 show ?thesis
        by (auto split: list.splits if_splits dest: skip_ws_Cons_length)
    next
      case n2: False
      show ?thesis
      proof (cases "c = 0x22")
        case True
        with assms s n1 n2 show ?thesis
          by (auto split: option.splits dest: parse_string_length)
      next
        case n3: False
        have "length rest < length (c # cs)"
        proof (cases "prefix (asc ''true'') (c # cs) \<or> prefix (asc ''false'') (c # cs)
                       \<or> prefix (asc ''null'') (c # cs)")
          case True
          with assms s n1 n2 n3 have "rest = drop 4 (c # cs) \<or> rest = drop 5 (c # cs)"
            by (auto split: if_splits)
          then show ?thesis by auto
        next
          case False
          with assms s n1 n2 n3 obtain q where "parse_number (c # cs) = Some (q, rest)"
            by (auto split: option.splits)
          from parse_number_length [OF this] show ?thesis .
        qed
        with s show ?thesis by blast
      qed
    qed
  qed
qed

lemma parse_elems_Parsed:
  assumes "parse_elems (Suc n) acc s = Parsed v rest"
  shows "\<exists>x r c cs. parse_value n s = Parsed x r \<and> skip_ws r = c # cs \<and>
           (rest = cs \<or> parse_elems n (acc @ [x]) cs = Parsed v rest)"
  using assms by (auto split: parsed.splits list.splits if_splits)

lemma parse_members_Parsed:
  assumes "parse_members (Suc n) acc s = Parsed v rest"
  shows "\<exists>c cs k r1 d ds x r2 e es. skip_ws s = c # cs \<and> parse_string cs = Some (k, r1) \<and>
           skip_ws r1 = d # ds \<and> parse_value n ds = Parsed x r2 \<and> skip_ws r2 = e # es \<and>
           (rest = es \<or> parse_members n (js_put k x acc) es = Parsed v rest)"
  using assms
  by (auto split: parsed.splits list.splits if_splits option.splits prod.splits)


lemma parse_consumes:
  "(\<forall>s v rest. parse_value n s = Parsed v rest \<longrightarrow> length rest < length s) \<and>
   (\<forall>acc s v rest. parse_elems n acc s = Parsed v rest \<longrightarrow> length rest < length s) \<and>
   (\<forall>acc s v rest. parse_members n acc s = Parsed v rest \<longrightarrow> length rest < length s)"
proof (induction n)
  case 0
  show ?case by simp
next
  case (Suc n)
  then have V: "\<And>s v rest. parse_value n s = Parsed v rest \<Longrightarrow> length rest < length s"
    and E: "\<And>acc s v rest. parse_elems n acc s = Parsed v rest \<Longrightarrow> length rest < length s"
    and M: "\<And>acc s v rest. parse_members n acc s = Parsed v rest \<Longrightarrow> length rest < length s"
    by blast+
  have "length rest < length s" if a: "parse_value (Suc n) s = Parsed v rest" for s v rest
  proof -
    from parse_value_Parsed [OF a] obtain c cs where s: "skip_ws s = c # cs"
      and d: "length rest < length cs \<or> parse_members n [] cs = Parsed v rest
              \<or> parse_elems n [] cs = Parsed v rest \<or> length rest < length (c # cs)"
      by blast
    from d E M have "length rest < length (c # cs)" by fastforce
    with length_skip_ws [of s] s show ?thesis by simp
  qed
  moreover
  have "length rest < length s" if a: "parse_elems (Suc n) acc s = Parsed v rest"
    for acc s v rest
  proof -
    from parse_elems_Parsed [OF a] obtain x r c cs where x: "parse_value n s = Parsed x r"
      and r: "skip_ws r = c # cs"
      and d: "rest = cs \<or> parse_elems n (acc @ [x]) cs = Parsed v rest" by blast
    from d E have "length rest \<le> length cs" by fastforce
    with V [OF x] skip_ws_Cons_length [OF r] show ?thesis by simp
  qed
  moreover
  have "length rest < length s" if a: "parse_members (Suc n) acc s = Parsed v rest"
    for acc s v rest
  proof -
    from parse_members_Parsed [OF a] obtain c cs k r1 d ds x r2 e es
      where s: "skip_ws s = c # cs" and k: "parse_string cs = Some (k, r1)"
        and r1: "skip_ws r1 = d # ds" and x: "parse_value n ds = Parsed x r2"
        and r2: "skip_ws r2 = e # es"
        and d: "rest = es \<or> parse_members n (js_put k x acc) es = Parsed v rest"
      by blast
    from d M have "length rest \<le> length es" by fastforce
    with skip_ws_Cons_length [OF s] parse_string_length [OF k] skip_ws_Cons_length [OF r1]
      V [OF x] skip_ws_Cons_length [OF r2]
    show ?thesis by simp
  qed
  ultimately show ?case by blast
qed

lemma parse_value_consumes: "parse_value n s = Parsed v rest \<Longrightarrow> length rest < length s"
  using parse_consumes by blast

lemma parse_value_OutOfFuel:
  assumes "parse_value (Suc n) s = OutOfFuel"
  shows "\<exists>c cs. skip_ws s = c # cs \<and>
           (parse_members n [] cs = OutOfFuel \<or> parse_elems n [] cs = OutOfFuel)"
proof -
  from assms obtain c cs where s: "skip_ws s = c # cs" by (cases "skip_ws s") auto
  show ?thesis
  proof (cases "c = 0x7B \<or> c = 0x5B")
    case True
    with assms s show ?thesis by (auto split: list.splits if_splits)
  next
    case False
    with assms s have False by (auto split: option.splits if_splits)
    then show ?thesis ..
  qed
qed

lemma parse_elems_OutOfFuel:
  assumes "parse_elems (Suc n) acc s = OutOfFuel"
  shows "parse_value n s = OutOfFuel \<or>
         (\<exists>x r c cs. parse_value n s = Parsed x r \<and> skip_ws r = c # cs \<and>
            parse_elems n (acc @ [x]) cs = OutOfFuel)"
  using assms by (auto split: parsed.splits list.splits if_splits)

lemma parse_members_OutOfFuel:
  assumes "parse_members (Suc n) acc s = OutOfFuel"
  shows "\<exists>c cs k r1 d ds. skip_ws s = c # cs \<and> parse_string cs = Some (k, r1) \<and>
           skip_ws r1 = d # ds \<and>
           (parse_value n ds = OutOfFuel \<or>
            (\<exists>x r2 e es. parse_value n ds = Parsed x r2 \<and> skip_ws r2 = e # es \<and>
               parse_members n (js_put k x acc) es = OutOfFuel))"
  using assms
  by (auto split: parsed.splits list.splits if_splits option.splits prod.splits)

lemma fuel_bound:
  "(\<forall>s. parse_value n s = OutOfFuel \<longrightarrow> n \<le> 2 * length s) \<and>
   (\<forall>acc s. parse_elems n acc s = OutOfFuel \<longrightarrow> n \<le> 2 * length s + 1) \<and>
   (\<forall>acc s. parse_members n acc s = OutOfFuel \<longrightarrow> n \<le> 2 * length s + 1)"
proof (induction n)
  case 0
  show ?case by simp
next
  case (Suc n)
  then have V: "\<And>s. parse_value n s = OutOfFuel \<Longrightarrow> n \<le> 2 * length s"
    and E: "\<And>acc s. parse_elems n acc s = OutOfFuel \<Longrightarrow> n \<le> 2 * length s + 1"
    and M: "\<And>acc s. parse_members n acc s = OutOfFuel \<Longrightarrow> n \<le> 2 * length s + 1"
    by blast+
  have "Suc n \<le> 2 * length s" if a: "parse_value (Suc n) s = OutOfFuel" for s
  proof -
    from parse_value_OutOfFuel [OF a] obtain c cs where s: "skip_ws s = c # cs"
      and d: "parse_members n [] cs = OutOfFuel \<or> parse_elems n [] cs = OutOfFuel" by blast
    from d E M have "n \<le> 2 * length cs + 1" by blast
    with skip_ws_Cons_length [OF s] show ?thesis by simp
  qed
  moreover
  have "Suc n \<le> 2 * length s + 1" if a: "parse_elems (Suc n) acc s = OutOfFuel" for acc s
    using parse_elems_OutOfFuel [OF a]
  proof
    assume "parse_value n s = OutOfFuel"
    from V [OF this] show ?thesis by simp
  next
    assume "\<exists>x r c cs. parse_value n s = Parsed x r \<and> skip_ws r = c # cs \<and>
              parse_elems n (acc @ [x]) cs = OutOfFuel"
    then obtain x r c cs where x: "parse_value n s = Parsed x r" and r: "skip_ws r = c # cs"
      and e: "parse_elems n (acc @ [x]) cs = OutOfFuel" by blast
    from E [OF e] parse_value_consumes [OF x] skip_ws_Cons_length [OF r]
    show ?thesis by simp
  qed
  moreover
  have "Suc n \<le> 2 * length s + 1" if a: "parse_members (Suc n) acc s = OutOfFuel" for acc s
  proof -
    from parse_members_OutOfFuel [OF a] obtain c cs k r1 d ds
      where s: "skip_ws s = c # cs" and k: "parse_string cs = Some (k, r1)"
        and r1: "skip_ws r1 = d # ds"
        and d: "parse_value n ds = OutOfFuel \<or>
                (\<exists>x r2 e es. parse_value n ds = Parsed x r2 \<and> skip_ws r2 = e # es \<and>
                   parse_members n (js_put k x acc) es = OutOfFuel)" by blast
    from skip_ws_Cons_length [OF s] parse_string_length [OF k] skip_ws_Cons_length [OF r1]
    have ds: "length ds + 2 < length s" by simp
    from d show ?thesis
    proof
      assume "parse_value n ds = OutOfFuel"
      from V [OF this] ds show ?thesis by simp
    next
      assume "\<exists>x r2 e es. parse_value n ds = Parsed x r2 \<and> skip_ws r2 = e # es \<and>
                parse_members n (js_put k x acc) es = OutOfFuel"
      then obtain x r2 e es where x: "parse_value n ds = Parsed x r2"
        and r2: "skip_ws r2 = e # es"
        and m: "parse_members n (js_put k x acc) es = OutOfFuel" by blast
      from M [OF m] parse_value_consumes [OF x] skip_ws_Cons_length [OF r2] ds
      show ?thesis by simp
    qed
  qed
  ultimately show ?case by blast
qed

lemma JSON_parse_fuel: "parse_value (2 * length s + 1) s \<noteq> OutOfFuel"
  using fuel_bound [of "2 * length s + 1"] by auto

section \<open>JSON.parse undoes JSON.stringify\<close>

lemma hex_val_digits: "list_all (\<lambda>n. hex_val (hex_digit n) = Some n) [0..<16]"
  by code_simp

lemma hex_val_digit: "n < 16 \<Longrightarrow> hex_val (hex_digit n) = Some n"
  using hex_val_digits by (simp add: list_all_iff del: upt.simps)

lemma hex_split:
  "(n::nat) = 4096 * (n div 4096) + 256 * (n div 256 mod 16) + 16 * (n div 16 mod 16) + n mod 16"
proof -
  have d1: "n div 16 div 16 = n div 256" and d2: "n div 256 div 16 = n div 4096"
    by (simp_all add: div_mult2_eq [symmetric])
  have a: "n = 16 * (n div 16) + n mod 16" by simp
  have b: "n div 16 = 16 * (n div 256) + n div 16 mod 16"
    by (metis d1 mult_div_mod_eq)
  have c: "n div 256 = 16 * (n div 4096) + n div 256 mod 16"
    by (metis d2 mult_div_mod_eq)
  from a b c show ?thesis by linarith
qed

lemma hex4_escape:
  "hex4 (hex_digit (unat c div 4096)) (hex_digit (unat c div 256 mod 16))
        (hex_digit (unat c div 16 mod 16)) (hex_digit (unat c mod 16)) = Some (c :: 16 word)"
proof -
  have "unat c < 65536" using unsigned_less [of c] by simp
  then have a: "unat c div 4096 < 16" by simp
  have b: "unat c div 256 mod 16 < 16" "unat c div 16 mod 16 < 16" "unat c mod 16 < 16"
    by simp_all
  have "of_nat (4096 * (unat c div 4096) + 256 * (unat c div 256 mod 16)
                + 16 * (unat c div 16 mod 16) + unat c mod 16) = (of_nat (unat c) :: 16 word)"
    using hex_split [of "unat c"] by simp
  then show ?thesis
    by (simp add: hex4_def hex_val_digit a b)
qed


lemma parse_string_escape:
  "parse_string (unicode_escape c @ tail) = push_unit c (parse_string tail)"
  by (simp add: unicode_escape_def hex4_escape)

lemma parse_string_unit:
  "parse_string (quote_unit c @ tail) = push_unit c (parse_string tail)"
  by (simp add: quote_unit_def parse_string_escape)

lemma high_plain: "is_high c \<Longrightarrow> \<not> c < 0x20 \<and> c \<noteq> 0x22 \<and> c \<noteq> 0x5C"
  unfolding is_high_def by (auto simp: word_le_nat_alt word_less_nat_alt)

lemma low_plain: "is_low c \<Longrightarrow> \<not> c < 0x20 \<and> c \<noteq> 0x22 \<and> c \<noteq> 0x5C"
  unfolding is_low_def by (auto simp: word_le_nat_alt word_less_nat_alt)

lemma parse_string_plain:
  "\<not> c < 0x20 \<and> c \<noteq> 0x22 \<and> c \<noteq> 0x5C \<Longrightarrow>
   parse_string (c # t) = push_unit c (parse_string t)"
  by simp

lemma quote_body_pair:
  "is_high c \<and> is_low d \<Longrightarrow> quote_body (c # d # ds) @ t = c # d # quote_body ds @ t"
  by simp

lemma quote_body_single:
  "\<not> (is_high c \<and> is_low d) \<Longrightarrow>
   quote_body (c # d # ds) @ t = quote_unit c @ quote_body (d # ds) @ t"
  by auto

lemma parse_string_quote_body:
  "parse_string (quote_body s @ 0x22 # rest) = Some (s, rest)"
proof (induction s rule: quote_body.induct)
  case 1
  show ?case by simp
next
  case (2 c)
  show ?case by (simp add: parse_string_unit push_unit_def)
next
  case (3 c d ds)
  show ?case
  proof (cases "is_high c \<and> is_low d")
    case True
    then have ih: "parse_string (quote_body ds @ 0x22 # rest) = Some (ds, rest)"
      by (rule "3.IH"(1))
    from True have pc: "\<not> c < 0x20 \<and> c \<noteq> 0x22 \<and> c \<noteq> 0x5C"
      and pd: "\<not> d < 0x20 \<and> d \<noteq> 0x22 \<and> d \<noteq> 0x5C"
      using high_plain low_plain by blast+
    show ?thesis
      unfolding quote_body_pair [OF True] parse_string_plain [OF pc] parse_string_plain [OF pd] ih
      by (simp add: push_unit_def)
  next
    case False
    then have ih: "parse_string (quote_body (d # ds) @ 0x22 # rest) = Some (d # ds, rest)"
      by (rule "3.IH"(2))
    show ?thesis
      unfolding quote_body_single [OF False] parse_string_unit ih
      by (simp add: push_unit_def)
  qed
qed

lemma parse_string_quote: "parse_string (tl (quote s) @ rest) = Some (s, rest)"
  by (simp add: quote_def parse_string_quote_body)




subsection \<open>The text of a number\<close>








subsection \<open>The text of the other values\<close>
















lemma number_end_separator [simp]:
  "number_end (0x2C # t)" "number_end (0x5D # t)" "number_end (0x7D # t)" "number_end []"
  by (simp_all add: number_end_def is_digit_def)














section \<open>Saving and reloading the report list\<close>




end
